theory Spec2Isabelle
  imports Main
begin

section \<open>ClawGuard client core: a shallow embedding\<close>

text \<open>
  The development follows the client-side sources of ClawGuard: the tool enforcer
  (\<open>policy/tool-enforcer.ts\<close>), the policy cache (\<open>policy/org-policy-cache.ts\<close>), the audit
  logger (\<open>audit/audit-logger.ts\<close>) and the heartbeat manager (\<open>heartbeat/kill-switch.ts\<close>).

  Conventions of the embedding.
  \<^item> A JavaScript string is a \<open>string\<close>: a list of code units below 256 (Latin-1). On that
    range \<open>trim\<close> and \<open>toLowerCase\<close> are written out exactly; names with other code units are
    outside the model.
  \<^item> A JavaScript number that holds a time, a TTL or a size is an \<open>int\<close>.
  \<^item> An optional field or an \<open>undefined\<close> value is an \<open>option\<close>.
  \<^item> The lookup tables \<open>TOOL_NAME_ALIASES\<close> and \<open>TOOL_GROUPS\<close> are maps holding the entries
    the source lists; properties inherited from the object prototype are not modelled.
  \<^item> \<open>Date.now()\<close>, the outcome of a network request and the library functions
    \<open>JSON.stringify\<close> and \<open>JSON.parse\<close> are parameters of the functions that use them.
\<close>

subsection \<open>Strings\<close>

definition isWhiteSpace :: "char \<Rightarrow> bool" where
  \<comment> \<open>the white space and line terminator code units below 256 that \<open>trim\<close> removes\<close>
  "isWhiteSpace c = ((of_char c :: nat) \<in> {9, 10, 11, 12, 13, 32, 160})"

definition trim :: "string \<Rightarrow> string" where
  "trim s = rev (dropWhile isWhiteSpace (rev (dropWhile isWhiteSpace s)))"

definition toLowerCase_char :: "char \<Rightarrow> char" where
  \<comment> \<open>\<open>A\<close>..\<open>Z\<close> and the Latin-1 capitals \<open>0xC0\<close>..\<open>0xDE\<close> (without the sign \<open>0xD7\<close>)\<close>
  "toLowerCase_char c =
     (let n = (of_char c :: nat)
      in if (65 \<le> n \<and> n \<le> 90) \<or> (192 \<le> n \<and> n \<le> 222 \<and> n \<noteq> 215)
         then char_of (n + 32) else c)"

definition toLowerCase :: "string \<Rightarrow> string" where
  "toLowerCase s = map toLowerCase_char s"

subsection \<open>Shared types (\<open>types.ts\<close>)\<close>

datatype json =
    JNull
  | JBool bool
  | JNumber int
  | JString string
  | JArray "json list"
  | JObject "(string \<times> json) list"

type_synonym metadata = "(string \<times> json) list"

datatype AuditLevel = Full | Metadata | Off

datatype AuditEventType =
    tool_call_attempt
  | tool_call_result
  | session_start
  | session_end
  | llm_input
  | llm_output
  | kill_switch_activated
  | policy_refresh

datatype Outcome = allowed | blocked | error | success

record ToolsPolicy =
  allow :: "string list option"
  deny :: "string list option"
  profile :: "string option"

record ApprovedSkill =
  skill_name :: string
  skill_key :: string
  skill_scope :: string

record KillSwitchPolicy =
  active :: bool
  message :: "string option"

record OrgPolicy =
  version :: int
  tools :: ToolsPolicy
  skills_approved :: "ApprovedSkill list"
  skills_requireApproval :: bool
  killSwitch :: KillSwitchPolicy
  auditLevel :: AuditLevel

record AuditEvent =
  ev_userId :: string
  ev_orgId :: string
  ev_agentId :: "string option"
  ev_sessionKey :: "string option"
  ev_eventType :: AuditEventType
  ev_toolName :: "string option"
  ev_timestamp :: int
  ev_outcome :: Outcome
  ev_metadata :: "metadata option"

record AuditLoggerEnqueueParams =
  p_eventType :: AuditEventType
  p_toolName :: "string option"
  p_outcome :: Outcome
  p_agentId :: "string option"
  p_sessionKey :: "string option"
  p_metadata :: "metadata option"

subsection \<open>Tool enforcer (\<open>policy/tool-enforcer.ts\<close>)\<close>

definition TOOL_NAME_ALIASES :: "string \<rightharpoonup> string" where
  "TOOL_NAME_ALIASES = map_of [(''bash'', ''exec''), (''apply-patch'', ''apply_patch'')]"

definition normalizeToolName :: "string \<Rightarrow> string" where
  "normalizeToolName name =
     (let normalized = toLowerCase (trim name)
      in case TOOL_NAME_ALIASES normalized of Some canonical \<Rightarrow> canonical | None \<Rightarrow> normalized)"

definition TOOL_GROUPS :: "string \<rightharpoonup> string list" where
  "TOOL_GROUPS = map_of
     [(''group:memory'', [''memory_search'', ''memory_get'']),
      (''group:web'', [''web_search'', ''web_fetch'']),
      (''group:fs'', [''read'', ''write'', ''edit'', ''apply_patch'']),
      (''group:runtime'', [''exec'', ''process'']),
      (''group:sessions'',
         [''sessions_list'', ''sessions_history'', ''sessions_send'', ''sessions_spawn'',
          ''subagents'', ''session_status'']),
      (''group:ui'', [''browser'', ''canvas'']),
      (''group:automation'', [''cron'', ''gateway'']),
      (''group:messaging'', [''message'']),
      (''group:nodes'', [''nodes''])]"

definition expandGroups :: "string list \<Rightarrow> string set" where
  \<comment> \<open>the two nested \<open>for\<close> loops, adding to the set \<open>expanded\<close>\<close>
  "expandGroups list =
     foldl (\<lambda>expanded entry.
              let normalized = normalizeToolName entry
              in case TOOL_GROUPS normalized of
                   Some grp \<Rightarrow> foldl (\<lambda>acc tool. insert tool acc) expanded grp
                 | None \<Rightarrow> insert normalized expanded)
           {} list"

record ToolEnforcerState =
  policy :: "OrgPolicy option"
  killSwitchActive :: bool
  killSwitchMessage :: "string option"

record PluginHookBeforeToolCallEvent =
  toolName :: string

record PluginHookToolContext =
  agentId :: "string option"
  sessionKey :: "string option"

record PluginHookBeforeToolCallResult =
  block :: bool
  blockReason :: string

definition attempt ::
  "string \<Rightarrow> Outcome \<Rightarrow> PluginHookToolContext \<Rightarrow> metadata option \<Rightarrow> AuditLoggerEnqueueParams"
where
  \<comment> \<open>the object literal passed to \<open>auditLogger.enqueue\<close> at each of the five exits\<close>
  "attempt name out ctx md =
     \<lparr>p_eventType = tool_call_attempt, p_toolName = Some name, p_outcome = out,
      p_agentId = agentId ctx, p_sessionKey = sessionKey ctx, p_metadata = md\<rparr>"

definition reason :: "string \<Rightarrow> metadata option" where
  "reason r = Some [(''reason'', JString r)]"

definition createToolEnforcerHook ::
  "ToolEnforcerState \<Rightarrow> PluginHookBeforeToolCallEvent \<Rightarrow> PluginHookToolContext
     \<Rightarrow> PluginHookBeforeToolCallResult option \<times> AuditLoggerEnqueueParams list"
where
  \<comment> \<open>the hook's return value (\<open>None\<close> is \<open>undefined\<close>: the call goes ahead) and the calls
      it makes to \<open>auditLogger.enqueue\<close>, in order\<close>
  "createToolEnforcerHook state event ctx =
     (let name = normalizeToolName (toolName event)
      in if killSwitchActive state then
           (Some \<lparr>block = True,
                  blockReason =
                    (case killSwitchMessage state of
                       Some m \<Rightarrow> m
                     | None \<Rightarrow> ''ClawGuard: All tool calls blocked by organization kill switch'')\<rparr>,
            [attempt name blocked ctx (reason ''kill_switch'')])
         else case policy state of
           None \<Rightarrow> (None, [attempt name allowed ctx (reason ''no_policy'')])
         | Some pol \<Rightarrow>
             if (case deny (tools pol) of
                   None \<Rightarrow> False
                 | Some denyList \<Rightarrow> denyList \<noteq> [] \<and> name \<in> expandGroups denyList) then
               (Some \<lparr>block = True,
                      blockReason = ''ClawGuard: Tool '' @ [CHR 0x22] @ toolName event @ [CHR 0x22]
                                    @ '' is blocked by organization policy''\<rparr>,
                [attempt name blocked ctx (reason ''deny_list'')])
             else if (case allow (tools pol) of
                        None \<Rightarrow> False
                      | Some allowList \<Rightarrow> allowList \<noteq> [] \<and> name \<notin> expandGroups allowList) then
               (Some \<lparr>block = True,
                      blockReason = ''ClawGuard: Tool '' @ [CHR 0x22] @ toolName event @ [CHR 0x22]
                                    @ '' is not in the organization'' @ [CHR 0x27]
                                    @ ''s allowed tools list''\<rparr>,
                [attempt name blocked ctx (reason ''not_in_allowlist'')])
             else (None, [attempt name allowed ctx None]))"

subsection \<open>Configuration, session and the local files\<close>

record ClawGuardPluginConfig =
  controlPlaneUrl :: "string option"
  cfg_orgId :: "string option"
  policyCacheTtlMs :: "int option"
  heartbeatIntervalMs :: "int option"
  heartbeatFailureThreshold :: "int option"
  auditBatchSize :: "int option"
  auditFlushIntervalMs :: "int option"

record SessionTokens =
  accessToken :: string
  refreshToken :: "string option"
  expiresAt :: "int option"
  userId :: string
  orgId :: string
  email :: "string option"
  roles :: "string list option"

text \<open>
  The two files under \<open>~/.openclaw/clawguard\<close>. A file is \<open>None\<close> when \<open>readFileSync\<close> throws
  on it (it does not exist). \<open>writable\<close> says whether \<open>mkdirSync\<close>, \<open>writeFileSync\<close> and
  \<open>unlinkSync\<close> succeed; when it is false they throw and the file stays as it is.
\<close>

record Disk =
  cache_file :: "string option"
  buffer_file :: "string option"
  writable :: bool

datatype fs_error = WriteFailed

text \<open>
  The outcome of \<open>await fetch(...)\<close>: a response with its status and body, or an exception.
\<close>

datatype 'b fetch_result = Responded nat 'b | Threw string

definition response_ok :: "nat \<Rightarrow> bool" where
  "response_ok status = (200 \<le> status \<and> status \<le> 299)"

subsection \<open>Policy cache (\<open>policy/org-policy-cache.ts\<close>)\<close>

record CachedPolicy =
  cp_policy :: OrgPolicy
  cp_fetchedAt :: int
  cp_ttlMs :: "int option"

definition DEFAULT_TTL_MS :: int where
  "DEFAULT_TTL_MS = 60 * 60 * 1000"

text \<open>
  \<open>parse\<close> is \<open>JSON.parse\<close> followed by the cast to \<open>CachedPolicy\<close>; it is \<open>None\<close> where
  \<open>JSON.parse\<close> throws. \<open>now\<close> is \<open>Date.now()\<close>. The result \<open>None\<close> is \<open>null\<close>.
\<close>

definition loadCachedPolicy ::
  "(string \<Rightarrow> CachedPolicy option) \<Rightarrow> int option \<Rightarrow> int \<Rightarrow> Disk \<Rightarrow> OrgPolicy option"
where
  "loadCachedPolicy parse ttlMs now disk =
     (case cache_file disk of
        None \<Rightarrow> None
      | Some raw \<Rightarrow>
          (case parse raw of
             None \<Rightarrow> None
           | Some cached \<Rightarrow>
               let ttl = (case ttlMs of
                            Some t \<Rightarrow> t
                          | None \<Rightarrow> (case cp_ttlMs cached of
                                       Some t \<Rightarrow> t
                                     | None \<Rightarrow> DEFAULT_TTL_MS))
               in if now - cp_fetchedAt cached > ttl then None else Some (cp_policy cached)))"

definition saveCachedPolicy ::
  "(CachedPolicy \<Rightarrow> string) \<Rightarrow> OrgPolicy \<Rightarrow> int option \<Rightarrow> int \<Rightarrow> Disk \<Rightarrow> fs_error + Disk"
where
  \<comment> \<open>\<open>ensureDir\<close> and \<open>writeFileSync\<close> are not guarded: their exception reaches the caller\<close>
  "saveCachedPolicy stringify pol ttlMs now disk =
     (if \<not> writable disk then Inl WriteFailed
      else
        let cached = \<lparr>cp_policy = pol, cp_fetchedAt = now,
                      cp_ttlMs = Some (case ttlMs of Some t \<Rightarrow> t | None \<Rightarrow> DEFAULT_TTL_MS)\<rparr>
        in Inr (disk\<lparr>cache_file := Some (stringify cached)\<rparr>))"

definition loadCachedPolicyFallback ::
  "(string \<Rightarrow> CachedPolicy option) \<Rightarrow> Disk \<Rightarrow> OrgPolicy option"
where
  "loadCachedPolicyFallback parse disk =
     (case cache_file disk of
        None \<Rightarrow> None
      | Some raw \<Rightarrow>
          (case parse raw of
             None \<Rightarrow> None
           | Some cached \<Rightarrow> Some (cp_policy cached)))"

subsection \<open>Audit logger (\<open>audit/audit-logger.ts\<close>)\<close>

definition DEFAULT_BATCH_SIZE :: int where
  "DEFAULT_BATCH_SIZE = 100"

definition DEFAULT_FLUSH_INTERVAL_MS :: int where
  "DEFAULT_FLUSH_INTERVAL_MS = 30000"

record AuditLogger =
  al_buffer :: "AuditEvent list"
  al_batchSize :: int
  al_flushIntervalMs :: int
  al_controlPlaneUrl :: string
  al_orgId :: string
  al_userId :: string
  al_accessToken :: string
  al_auditLevel :: AuditLevel

fun join_nl :: "string list \<Rightarrow> string" where
  \<comment> \<open>\<open>lines.join("\n")\<close>\<close>
  "join_nl [] = []"
| "join_nl [l] = l"
| "join_nl (l # ls) = l @ CHR 0x0A # join_nl ls"

fun split_nl :: "string \<Rightarrow> string list" where
  \<comment> \<open>\<open>raw.split("\n")\<close>: the empty string gives one empty piece\<close>
  "split_nl [] = [[]]"
| "split_nl (c # cs) =
     (if c = CHR 0x0A then [] # split_nl cs
      else (case split_nl cs of
              [] \<Rightarrow> [[c]]
            | l # ls \<Rightarrow> (c # l) # ls))"

definition persistBuffer :: "(AuditEvent \<Rightarrow> string) \<Rightarrow> AuditEvent list \<Rightarrow> Disk \<Rightarrow> Disk" where
  \<comment> \<open>best effort: an exception of the file system is swallowed\<close>
  "persistBuffer stringify events disk =
     (if writable disk
      then (let lines = join_nl (map stringify events)
            in disk\<lparr>buffer_file := Some (lines @ [CHR 0x0A])\<rparr>)
      else disk)"

definition clearPersistedBuffer :: "Disk \<Rightarrow> Disk" where
  \<comment> \<open>\<open>unlinkSync\<close>; its exception (no such file, or no permission) is ignored\<close>
  "clearPersistedBuffer disk = (if writable disk then disk\<lparr>buffer_file := None\<rparr> else disk)"

definition loadPersistedBuffer ::
  "(string \<Rightarrow> AuditEvent option) \<Rightarrow> Disk \<Rightarrow> AuditLogger \<Rightarrow> AuditLogger"
where
  \<comment> \<open>\<open>parse\<close> is \<open>JSON.parse\<close> with the cast to \<open>AuditEvent\<close>, \<open>None\<close> where it throws\<close>
  "loadPersistedBuffer parse disk logger =
     (case buffer_file disk of
        None \<Rightarrow> logger
      | Some raw \<Rightarrow>
          let lines = filter (\<lambda>line. line \<noteq> []) (split_nl (trim raw))
          in foldl (\<lambda>lg line.
                      case parse line of
                        Some event \<Rightarrow> lg\<lparr>al_buffer := al_buffer lg @ [event]\<rparr>
                      | None \<Rightarrow> lg)
                   logger lines)"

definition new_AuditLogger ::
  "(string \<Rightarrow> AuditEvent option) \<Rightarrow> ClawGuardPluginConfig \<Rightarrow> SessionTokens
     \<Rightarrow> AuditLevel option \<Rightarrow> Disk \<Rightarrow> AuditLogger"
where
  "new_AuditLogger parse config session level disk =
     loadPersistedBuffer parse disk
       \<lparr>al_buffer = [],
        al_batchSize = (case auditBatchSize config of Some n \<Rightarrow> n | None \<Rightarrow> DEFAULT_BATCH_SIZE),
        al_flushIntervalMs =
          (case auditFlushIntervalMs config of Some n \<Rightarrow> n | None \<Rightarrow> DEFAULT_FLUSH_INTERVAL_MS),
        al_controlPlaneUrl = (case controlPlaneUrl config of Some u \<Rightarrow> u | None \<Rightarrow> []),
        al_orgId = orgId session,
        al_userId = userId session,
        al_accessToken = accessToken session,
        al_auditLevel = (case level of Some lv \<Rightarrow> lv | None \<Rightarrow> Metadata)\<rparr>"

definition updateAuditLevel :: "AuditLevel \<Rightarrow> AuditLogger \<Rightarrow> AuditLogger" where
  "updateAuditLevel level logger = logger\<lparr>al_auditLevel := level\<rparr>"

text \<open>
  \<open>flush\<close> is an \<open>async\<close> function with one \<open>await\<close>. \<open>flush_begin\<close> is the part that runs
  at the call, up to the \<open>await fetch\<close>; it reports what was started. \<open>flush_end\<close> is the part
  that runs when the request settles, on the logger as it is then: events enqueued in the
  meantime are in its buffer.
\<close>

datatype flush_status =
    Idle
  | PersistedLocally
  | PostInFlight "AuditEvent list"

definition flush_begin ::
  "(AuditEvent \<Rightarrow> string) \<Rightarrow> AuditLogger \<Rightarrow> Disk \<Rightarrow> flush_status \<times> AuditLogger \<times> Disk"
where
  "flush_begin stringify logger disk =
     (if al_buffer logger = [] then (Idle, logger, disk)
      else
        let batch = al_buffer logger;
            logger' = logger\<lparr>al_buffer := []\<rparr>
        in if al_controlPlaneUrl logger' = []
           then (PersistedLocally, logger', persistBuffer stringify batch disk)
           else (PostInFlight batch, logger', disk))"

definition flush_end ::
  "(AuditEvent \<Rightarrow> string) \<Rightarrow> 'b fetch_result \<Rightarrow> AuditEvent list \<Rightarrow> AuditLogger \<Rightarrow> Disk
     \<Rightarrow> AuditLogger \<times> Disk"
where
  "flush_end stringify result batch logger disk =
     (case result of
        Responded status body \<Rightarrow>
          if \<not> response_ok status then
            (let logger' = logger\<lparr>al_buffer := batch @ al_buffer logger\<rparr>
             in (logger', persistBuffer stringify (al_buffer logger') disk))
          else (logger, clearPersistedBuffer disk)
      | Threw err \<Rightarrow>
          (let logger' = logger\<lparr>al_buffer := batch @ al_buffer logger\<rparr>
           in (logger', persistBuffer stringify (al_buffer logger') disk)))"

definition flush ::
  "(AuditEvent \<Rightarrow> string) \<Rightarrow> 'b fetch_result \<Rightarrow> AuditLogger \<Rightarrow> Disk \<Rightarrow> AuditLogger \<times> Disk"
where
  \<comment> \<open>a flush during which nothing else runs\<close>
  "flush stringify result logger disk =
     (case flush_begin stringify logger disk of
        (PostInFlight batch, logger', disk') \<Rightarrow> flush_end stringify result batch logger' disk'
      | (_, logger', disk') \<Rightarrow> (logger', disk'))"

definition shipped :: "'b fetch_result \<Rightarrow> bool" where
  \<comment> \<open>the request returned and \<open>response.ok\<close> holds\<close>
  "shipped result = (case result of Responded status body \<Rightarrow> response_ok status | Threw err \<Rightarrow> False)"

definition auditEvent :: "AuditLogger \<Rightarrow> AuditLoggerEnqueueParams \<Rightarrow> int \<Rightarrow> AuditEvent" where
  \<comment> \<open>the object \<open>event\<close> that \<open>enqueue\<close> builds; \<open>now\<close> is \<open>Date.now()\<close>\<close>
  "auditEvent logger params now =
     \<lparr>ev_userId = al_userId logger,
      ev_orgId = al_orgId logger,
      ev_agentId = p_agentId params,
      ev_sessionKey = p_sessionKey params,
      ev_eventType = p_eventType params,
      ev_toolName = p_toolName params,
      ev_timestamp = now,
      ev_outcome = p_outcome params,
      ev_metadata = (if al_auditLevel logger = Full then p_metadata params else None)\<rparr>"

definition enqueue ::
  "(AuditEvent \<Rightarrow> string) \<Rightarrow> AuditLoggerEnqueueParams \<Rightarrow> int \<Rightarrow> AuditLogger \<Rightarrow> Disk
     \<Rightarrow> flush_status \<times> AuditLogger \<times> Disk"
where
  \<comment> \<open>the status is that of the flush started when the buffer reaches the batch size\<close>
  "enqueue stringify params now logger disk =
     (if al_auditLevel logger = Off then (Idle, logger, disk)
      else
        let event = auditEvent logger params now;
            logger' = logger\<lparr>al_buffer := al_buffer logger @ [event]\<rparr>
        in if int (length (al_buffer logger')) \<ge> al_batchSize logger'
           then flush_begin stringify logger' disk
           else (Idle, logger', disk))"

fun enqueue_all ::
  "(AuditEvent \<Rightarrow> string) \<Rightarrow> (AuditLoggerEnqueueParams \<times> int) list \<Rightarrow> AuditLogger \<Rightarrow> Disk
     \<Rightarrow> flush_status list \<times> AuditLogger \<times> Disk"
where
  \<comment> \<open>successive calls of \<open>enqueue\<close>, each with its time; the flushes they started, in order\<close>
  "enqueue_all stringify [] logger disk = ([], logger, disk)"
| "enqueue_all stringify ((params, now) # rest) logger disk =
     (case enqueue stringify params now logger disk of
        (st, logger', disk') \<Rightarrow>
          (case enqueue_all stringify rest logger' disk' of
             (sts, logger'', disk'') \<Rightarrow> (st # sts, logger'', disk'')))"

subsection \<open>Heartbeat and kill switch (\<open>heartbeat/kill-switch.ts\<close>)\<close>

definition DEFAULT_INTERVAL_MS :: int where
  "DEFAULT_INTERVAL_MS = 30000"

definition DEFAULT_FAILURE_THRESHOLD :: int where
  "DEFAULT_FAILURE_THRESHOLD = 10"

record HeartbeatResponse =
  policyVersion :: int
  hb_killSwitch :: bool
  hb_killSwitchMessage :: "string option"
  refreshPolicyNow :: bool

datatype failure_reason = HttpStatus nat | Exception string

text \<open>The messages given to the logger, by their content.\<close>

datatype log_entry =
    Warn_KillSwitchActivated string
  | Info_KillSwitchDeactivated
  | Info_PolicyRefreshRequested
  | Warn_HeartbeatFailed nat int failure_reason
  | Error_ThresholdReached int

record KillSwitchManager =
  ks_consecutiveFailures :: nat
  ks_intervalMs :: int
  ks_failureThreshold :: int
  ks_controlPlaneUrl :: string
  ks_orgId :: string
  ks_userId :: string
  ks_accessToken :: string
  ks_onPolicyRefreshNeeded :: bool
  ks_logger :: bool

text \<open>
  The manager together with what it acts on: the enforcement state it shares with the
  enforcer hook, the messages it has logged and the number of times it has invoked the
  refresh callback. \<open>ks_onPolicyRefreshNeeded\<close> and \<open>ks_logger\<close> say whether the optional
  callback and logger were given; the callback is taken to return normally.
\<close>

record Heartbeat =
  manager :: KillSwitchManager
  enforcerState :: ToolEnforcerState
  logged :: "log_entry list"
  refreshCalls :: nat

definition new_KillSwitchManager ::
  "ClawGuardPluginConfig \<Rightarrow> SessionTokens \<Rightarrow> bool \<Rightarrow> bool \<Rightarrow> KillSwitchManager"
where
  "new_KillSwitchManager config session callback logger =
     \<lparr>ks_consecutiveFailures = 0,
      ks_intervalMs = (case heartbeatIntervalMs config of Some n \<Rightarrow> n | None \<Rightarrow> DEFAULT_INTERVAL_MS),
      ks_failureThreshold =
        (case heartbeatFailureThreshold config of Some n \<Rightarrow> n | None \<Rightarrow> DEFAULT_FAILURE_THRESHOLD),
      ks_controlPlaneUrl = (case controlPlaneUrl config of Some u \<Rightarrow> u | None \<Rightarrow> []),
      ks_orgId = orgId session,
      ks_userId = userId session,
      ks_accessToken = accessToken session,
      ks_onPolicyRefreshNeeded = callback,
      ks_logger = logger\<rparr>"

definition log :: "log_entry \<Rightarrow> Heartbeat \<Rightarrow> Heartbeat" where
  \<comment> \<open>\<open>this.logger?.warn(...)\<close> and its siblings\<close>
  "log entry h = (if ks_logger (manager h) then h\<lparr>logged := logged h @ [entry]\<rparr> else h)"

definition handleFailure :: "failure_reason \<Rightarrow> Heartbeat \<Rightarrow> Heartbeat" where
  "handleFailure why h =
     (let h1 = h\<lparr>manager := (manager h)\<lparr>ks_consecutiveFailures :=
                                           ks_consecutiveFailures (manager h) + 1\<rparr>\<rparr>;
          h2 = log (Warn_HeartbeatFailed (ks_consecutiveFailures (manager h1))
                                         (ks_failureThreshold (manager h1)) why) h1
      in if int (ks_consecutiveFailures (manager h2)) \<ge> ks_failureThreshold (manager h2)
         then log (Error_ThresholdReached (ks_failureThreshold (manager h2))) h2
         else h2)"

definition heartbeat ::
  "(string + HeartbeatResponse) fetch_result \<Rightarrow> Heartbeat \<Rightarrow> Heartbeat"
where
  \<comment> \<open>the body is \<open>Inl\<close> when \<open>response.json()\<close> throws\<close>
  "heartbeat result h =
     (if ks_controlPlaneUrl (manager h) = [] then h
      else (case result of
        Threw err \<Rightarrow> handleFailure (Exception err) h
      | Responded status body \<Rightarrow>
          (if \<not> response_ok status then handleFailure (HttpStatus status) h
           else (case body of
             Inl err \<Rightarrow> handleFailure (Exception err) h
           | Inr data \<Rightarrow>
              (let h1 = h\<lparr>manager := (manager h)\<lparr>ks_consecutiveFailures := 0\<rparr>\<rparr>;
                   h2 = (if hb_killSwitch data then
                           (let h' = (if \<not> killSwitchActive (enforcerState h1)
                                      then log (Warn_KillSwitchActivated
                                                  (case hb_killSwitchMessage data of
                                                     Some m \<Rightarrow> m | None \<Rightarrow> ''No message'')) h1
                                      else h1)
                            in h'\<lparr>enforcerState := (enforcerState h')
                                    \<lparr>killSwitchActive := True,
                                     killSwitchMessage := hb_killSwitchMessage data\<rparr>\<rparr>)
                         else
                           (let h' = (if killSwitchActive (enforcerState h1)
                                      then log Info_KillSwitchDeactivated h1
                                      else h1)
                            in h'\<lparr>enforcerState := (enforcerState h')
                                    \<lparr>killSwitchActive := False,
                                     killSwitchMessage := None\<rparr>\<rparr>))
               in (if refreshPolicyNow data then
                     (let h3 = log Info_PolicyRefreshRequested h2
                      in (if ks_onPolicyRefreshNeeded (manager h3)
                          then h3\<lparr>refreshCalls := refreshCalls h3 + 1\<rparr>
                          else h3))
                   else h2))))))"

definition heartbeats ::
  "(string + HeartbeatResponse) fetch_result list \<Rightarrow> Heartbeat \<Rightarrow> Heartbeat"
where
  \<comment> \<open>successive ticks of the interval timer, each with the outcome of its request\<close>
  "heartbeats results h = foldl (\<lambda>h' result. heartbeat result h') h results"

definition failed :: "(string + HeartbeatResponse) fetch_result \<Rightarrow> bool" where
  \<comment> \<open>the outcomes on which \<open>heartbeat\<close> calls \<open>handleFailure\<close>\<close>
  "failed result =
     (case result of
        Threw err \<Rightarrow> True
      | Responded status body \<Rightarrow>
          \<not> response_ok status \<or> (case body of Inl err \<Rightarrow> True | Inr data \<Rightarrow> False))"

subsection \<open>Sample data\<close>

text \<open>
  Values for the worked examples: the policy of the cache tests, a disk with no files, and
  stand-ins for the two JSON functions that are inverse to each other on the sample values.
\<close>

definition sample_policy :: OrgPolicy where
  "sample_policy =
     \<lparr>version = 3,
      tools = \<lparr>allow = Some [''read'', ''write''], deny = Some [''exec''], profile = None\<rparr>,
      skills_approved = [], skills_requireApproval = False,
      killSwitch = \<lparr>active = False, message = None\<rparr>,
      auditLevel = Metadata\<rparr>"

definition sample_disk :: Disk where
  "sample_disk = \<lparr>cache_file = None, buffer_file = None, writable = True\<rparr>"

definition sample_cache_stringify :: "CachedPolicy \<Rightarrow> string" where
  "sample_cache_stringify cached = ''{cached}''"

definition sample_cache_parse :: "string \<Rightarrow> CachedPolicy option" where
  "sample_cache_parse raw =
     (if raw = ''{cached}''
      then Some \<lparr>cp_policy = sample_policy, cp_fetchedAt = 1000, cp_ttlMs = Some 60000\<rparr>
      else None)"

definition sample_heartbeat :: Heartbeat where
  \<comment> \<open>the manager of the heartbeat tests, with a logger and a refresh callback\<close>
  "sample_heartbeat =
     \<lparr>manager =
        \<lparr>ks_consecutiveFailures = 0, ks_intervalMs = 100, ks_failureThreshold = 3,
         ks_controlPlaneUrl = ''https://clawguard.example.com'',
         ks_orgId = ''org-123'', ks_userId = ''user-1'', ks_accessToken = ''test-token'',
         ks_onPolicyRefreshNeeded = True, ks_logger = True\<rparr>,
      enforcerState = \<lparr>policy = None, killSwitchActive = False, killSwitchMessage = None\<rparr>,
      logged = [],
      refreshCalls = 0\<rparr>"

definition sample_logger :: AuditLogger where
  \<comment> \<open>the logger of the audit tests, at audit level \<open>metadata\<close>, with an empty buffer\<close>
  "sample_logger =
     \<lparr>al_buffer = [], al_batchSize = 5, al_flushIntervalMs = 60000,
      al_controlPlaneUrl = ''https://clawguard.example.com'',
      al_orgId = ''org-123'', al_userId = ''user-1'', al_accessToken = ''test-token'',
      al_auditLevel = Metadata\<rparr>"

definition sample_event :: "string \<Rightarrow> AuditEvent" where
  "sample_event name =
     \<lparr>ev_userId = ''user-1'', ev_orgId = ''org-123'', ev_agentId = None, ev_sessionKey = None,
      ev_eventType = tool_call_attempt, ev_toolName = Some name, ev_timestamp = 1000,
      ev_outcome = allowed, ev_metadata = None\<rparr>"

definition sample_stringify :: "AuditEvent \<Rightarrow> string" where
  \<comment> \<open>one line per event: the tool name between braces\<close>
  "sample_stringify event =
     ''{'' @ (case ev_toolName event of Some name \<Rightarrow> name | None \<Rightarrow> []) @ ''}''"

definition sample_parse :: "string \<Rightarrow> AuditEvent option" where
  "sample_parse line =
     (case line of
        [] \<Rightarrow> None
      | c # rest \<Rightarrow>
          if c = CHR ''{'' \<and> rest \<noteq> [] \<and> last rest = CHR ''}''
          then Some (sample_event (butlast rest))
          else None)"

definition sample_config :: ClawGuardPluginConfig where
  "sample_config =
     \<lparr>controlPlaneUrl = Some ''https://clawguard.example.com'', cfg_orgId = Some ''org-123'',
      policyCacheTtlMs = None, heartbeatIntervalMs = Some 100,
      heartbeatFailureThreshold = Some 3, auditBatchSize = Some 5,
      auditFlushIntervalMs = Some 60000\<rparr>"

definition sample_session :: SessionTokens where
  "sample_session =
     \<lparr>accessToken = ''test-token'', refreshToken = None, expiresAt = None,
      userId = ''user-1'', orgId = ''org-123'', email = None, roles = None\<rparr>"

definition sample_params :: AuditLoggerEnqueueParams where
  \<comment> \<open>what the enforcer hook passes to \<open>enqueue\<close> when it blocks \<open>exec\<close> by the deny list\<close>
  "sample_params =
     \<lparr>p_eventType = tool_call_attempt, p_toolName = Some ''exec'', p_outcome = blocked,
      p_agentId = None, p_sessionKey = None,
      p_metadata = Some [(''reason'', JString ''deny_list'')]\<rparr>"

section \<open>Properties\<close>

subsection \<open>Strings and name normalization\<close>

lemma of_char_toLowerCase_char:
  "(of_char (toLowerCase_char c) :: nat) =
     (let n = (of_char c :: nat)
      in if (65 \<le> n \<and> n \<le> 90) \<or> (192 \<le> n \<and> n \<le> 222 \<and> n \<noteq> 215) then n + 32 else n)"
  unfolding toLowerCase_char_def Let_def
  by auto

lemma isWhiteSpace_toLowerCase_char [simp]:
  "isWhiteSpace (toLowerCase_char c) = isWhiteSpace c"
  unfolding isWhiteSpace_def of_char_toLowerCase_char Let_def
  by auto

lemma toLowerCase_char_idem [simp]:
  "toLowerCase_char (toLowerCase_char c) = toLowerCase_char c"
proof -
  have "(of_char (toLowerCase_char (toLowerCase_char c)) :: nat) = of_char (toLowerCase_char c)"
    unfolding of_char_toLowerCase_char Let_def by auto
  then show ?thesis by (metis char_of_char)
qed

lemma toLowerCase_idem [simp]: "toLowerCase (toLowerCase s) = toLowerCase s"
  by (simp add: toLowerCase_def)

lemma dropWhile_self: "xs = [] \<or> \<not> P (hd xs) \<Longrightarrow> dropWhile P xs = xs"
  by (cases xs) auto

lemma last_dropWhile: "dropWhile P xs \<noteq> [] \<Longrightarrow> last (dropWhile P xs) = last xs"
  by (metis last_appendR takeWhile_dropWhile_id)

text \<open>A string with no white space at either end is left alone by \<open>trim\<close>.\<close>

lemma trim_fixed:
  assumes "s = [] \<or> (\<not> isWhiteSpace (hd s) \<and> \<not> isWhiteSpace (last s))"
  shows "trim s = s"
proof (cases "s = []")
  case True
  then show ?thesis by (simp add: trim_def)
next
  case False
  with assms have h: "\<not> isWhiteSpace (hd s)" and l: "\<not> isWhiteSpace (last s)" by auto
  have "dropWhile isWhiteSpace s = s" using h by (simp add: dropWhile_self)
  moreover have "dropWhile isWhiteSpace (rev s) = rev s"
    using l False by (simp add: dropWhile_self hd_rev)
  ultimately show ?thesis by (simp add: trim_def)
qed

lemma trim_ends:
  "trim s = [] \<or> (\<not> isWhiteSpace (hd (trim s)) \<and> \<not> isWhiteSpace (last (trim s)))"
proof (cases "trim s = []")
  case True
  then show ?thesis by simp
next
  case False
  define t where "t = dropWhile isWhiteSpace s"
  define u where "u = dropWhile isWhiteSpace (rev t)"
  have ts: "trim s = rev u" by (simp add: trim_def t_def u_def)
  with False have u: "u \<noteq> []" by simp
  then have t: "t \<noteq> []" by (auto simp: u_def)
  have "last (trim s) = hd u" using u by (simp add: ts last_rev)
  moreover have "\<not> isWhiteSpace (hd u)" using u unfolding u_def by (rule hd_dropWhile)
  moreover have "hd (trim s) = last u" using u by (simp add: ts hd_rev)
  moreover have "last u = last (rev t)" using u unfolding u_def by (rule last_dropWhile)
  moreover have "last (rev t) = hd t" using t by (simp add: last_rev)
  moreover have "\<not> isWhiteSpace (hd t)" using t unfolding t_def by (rule hd_dropWhile)
  ultimately show ?thesis by simp
qed

lemma trim_idem [simp]: "trim (trim s) = trim s"
  by (rule trim_fixed) (rule trim_ends)

lemma trim_toLowerCase: "trim (toLowerCase s) = toLowerCase (trim s)"
proof -
  have "isWhiteSpace \<circ> toLowerCase_char = isWhiteSpace" by (rule ext) simp
  then show ?thesis by (simp add: trim_def toLowerCase_def dropWhile_map rev_map)
qed

lemma alias_targets:
  "TOOL_NAME_ALIASES n = Some v \<Longrightarrow> v = ''exec'' \<or> v = ''apply_patch''"
  by (auto simp: TOOL_NAME_ALIASES_def split: if_splits)

lemma normalizeToolName_exec: "normalizeToolName ''exec'' = ''exec''"
  by code_simp

lemma normalizeToolName_apply_patch: "normalizeToolName ''apply_patch'' = ''apply_patch''"
  by code_simp

text \<open>Normalizing a normalized name changes nothing: the alias targets are not alias keys.\<close>

lemma normalizeToolName_idem:
  "normalizeToolName (normalizeToolName name) = normalizeToolName name"
proof (cases "TOOL_NAME_ALIASES (toLowerCase (trim name))")
  case None
  then show ?thesis by (simp add: normalizeToolName_def trim_toLowerCase)
next
  case (Some v)
  then have "normalizeToolName name = v" by (simp add: normalizeToolName_def)
  with alias_targets [OF Some] show ?thesis
    by (auto simp: normalizeToolName_exec normalizeToolName_apply_patch)
qed

text \<open>The loops of \<open>expandGroups\<close> compute a union over the entries of the list.\<close>

lemma expandGroups_union:
  "expandGroups list =
     (\<Union>entry \<in> set list. case TOOL_GROUPS (normalizeToolName entry) of
                              Some grp \<Rightarrow> set grp | None \<Rightarrow> {normalizeToolName entry})"
proof -
  have ins: "foldl (\<lambda>acc tool. insert tool acc) A g = A \<union> set g" for A :: "string set" and g
    by (induction g arbitrary: A) auto
  have "foldl (\<lambda>expanded entry.
              let normalized = normalizeToolName entry
              in case TOOL_GROUPS normalized of
                   Some grp \<Rightarrow> foldl (\<lambda>acc tool. insert tool acc) expanded grp
                 | None \<Rightarrow> insert normalized expanded) A list
        = A \<union> (\<Union>entry \<in> set list. case TOOL_GROUPS (normalizeToolName entry) of
                              Some grp \<Rightarrow> set grp | None \<Rightarrow> {normalizeToolName entry})" for A
    by (induction list arbitrary: A) (auto simp: ins Let_def split: option.splits)
  then show ?thesis by (simp add: expandGroups_def)
qed

lemma expandGroups_Nil [simp]: "expandGroups [] = {}"
  by (simp add: expandGroups_def)

subsection \<open>Tool enforcer\<close>

text \<open>
  C1. Whenever the kill switch is active, whatever the tool name and whatever the policy
  (none included), the hook returns a block decision and calls \<open>enqueue\<close> exactly once, with
  outcome \<open>blocked\<close> and metadata reason \<open>kill_switch\<close>. The state is arbitrary apart from
  the switch, so no deny or allow list has a say.
\<close>

theorem kill_switch_blocks_every_call:
  assumes "killSwitchActive state"
  shows "createToolEnforcerHook state event ctx =
           (Some \<lparr>block = True,
                  blockReason =
                    (case killSwitchMessage state of
                       Some m \<Rightarrow> m
                     | None \<Rightarrow> ''ClawGuard: All tool calls blocked by organization kill switch'')\<rparr>,
            [\<lparr>p_eventType = tool_call_attempt,
              p_toolName = Some (normalizeToolName (toolName event)),
              p_outcome = blocked,
              p_agentId = agentId ctx,
              p_sessionKey = sessionKey ctx,
              p_metadata = Some [(''reason'', JString ''kill_switch'')]\<rparr>])"
  using assms by (simp add: createToolEnforcerHook_def attempt_def reason_def)

theorem kill_switch_blocks_every_call_witness:
  "killSwitchActive
     \<lparr>policy = Some \<lparr>version = 1,
                      tools = \<lparr>allow = Some [''read''], deny = None, profile = None\<rparr>,
                      skills_approved = [], skills_requireApproval = False,
                      killSwitch = \<lparr>active = False, message = None\<rparr>,
                      auditLevel = Metadata\<rparr>,
      killSwitchActive = True, killSwitchMessage = Some ''Emergency shutdown''\<rparr>
   \<and> createToolEnforcerHook
       \<lparr>policy = Some \<lparr>version = 1,
                        tools = \<lparr>allow = Some [''read''], deny = None, profile = None\<rparr>,
                        skills_approved = [], skills_requireApproval = False,
                        killSwitch = \<lparr>active = False, message = None\<rparr>,
                        auditLevel = Metadata\<rparr>,
        killSwitchActive = True, killSwitchMessage = Some ''Emergency shutdown''\<rparr>
       \<lparr>toolName = ''read''\<rparr> \<lparr>agentId = Some ''test-agent'', sessionKey = None\<rparr>
     = (Some \<lparr>block = True, blockReason = ''Emergency shutdown''\<rparr>,
        [\<lparr>p_eventType = tool_call_attempt, p_toolName = Some ''read'', p_outcome = blocked,
          p_agentId = Some ''test-agent'', p_sessionKey = None,
          p_metadata = Some [(''reason'', JString ''kill_switch'')]\<rparr>])"
proof -
  have n: "normalizeToolName ''read'' = ''read''" by code_simp
  show ?thesis
    using kill_switch_blocks_every_call
      [of "\<lparr>policy = Some \<lparr>version = 1,
                      tools = \<lparr>allow = Some [''read''], deny = None, profile = None\<rparr>,
                      skills_approved = [], skills_requireApproval = False,
                      killSwitch = \<lparr>active = False, message = None\<rparr>,
                      auditLevel = Metadata\<rparr>,
             killSwitchActive = True, killSwitchMessage = Some ''Emergency shutdown''\<rparr>"
           "\<lparr>toolName = ''read''\<rparr>" "\<lparr>agentId = Some ''test-agent'', sessionKey = None\<rparr>"]
    by (simp add: n)
qed

text \<open>
  C2. With the kill switch inactive, a call whose normalized name lies in the expanded deny
  list and in the expanded allow list is blocked, and the audited reason is \<open>deny_list\<close>:
  the deny check comes first.
\<close>

theorem deny_outranks_allow:
  assumes "\<not> killSwitchActive state"
    and "policy state = Some pol"
    and "deny (tools pol) = Some denyList"
    and "allow (tools pol) = Some allowList"
    and "normalizeToolName (toolName event) \<in> expandGroups denyList"
    and "normalizeToolName (toolName event) \<in> expandGroups allowList"
  shows "createToolEnforcerHook state event ctx =
           (Some \<lparr>block = True,
                  blockReason = ''ClawGuard: Tool '' @ [CHR 0x22] @ toolName event @ [CHR 0x22]
                                @ '' is blocked by organization policy''\<rparr>,
            [\<lparr>p_eventType = tool_call_attempt,
              p_toolName = Some (normalizeToolName (toolName event)),
              p_outcome = blocked,
              p_agentId = agentId ctx,
              p_sessionKey = sessionKey ctx,
              p_metadata = Some [(''reason'', JString ''deny_list'')]\<rparr>])"
proof -
  from assms(5) have "denyList \<noteq> []" by auto
  with assms show ?thesis
    by (simp add: createToolEnforcerHook_def attempt_def reason_def)
qed

theorem deny_outranks_allow_witness:
  "createToolEnforcerHook
     \<lparr>policy = Some \<lparr>version = 1,
                      tools = \<lparr>allow = Some [''read'', ''exec''], deny = Some [''exec''],
                               profile = None\<rparr>,
                      skills_approved = [], skills_requireApproval = False,
                      killSwitch = \<lparr>active = False, message = None\<rparr>,
                      auditLevel = Metadata\<rparr>,
      killSwitchActive = False, killSwitchMessage = None\<rparr>
     \<lparr>toolName = ''exec''\<rparr> \<lparr>agentId = None, sessionKey = None\<rparr>
   = (Some \<lparr>block = True,
            blockReason = ''ClawGuard: Tool '' @ [CHR 0x22] @ ''exec'' @ [CHR 0x22]
                          @ '' is blocked by organization policy''\<rparr>,
      [\<lparr>p_eventType = tool_call_attempt, p_toolName = Some ''exec'', p_outcome = blocked,
        p_agentId = None, p_sessionKey = None,
        p_metadata = Some [(''reason'', JString ''deny_list'')]\<rparr>])"
proof -
  have d: "''exec'' \<in> expandGroups [''exec'']" by code_simp
  have a: "''exec'' \<in> expandGroups [''read'', ''exec'']" by code_simp
  show ?thesis
    using deny_outranks_allow
      [of "\<lparr>policy = Some \<lparr>version = 1,
                      tools = \<lparr>allow = Some [''read'', ''exec''], deny = Some [''exec''],
                               profile = None\<rparr>,
                      skills_approved = [], skills_requireApproval = False,
                      killSwitch = \<lparr>active = False, message = None\<rparr>,
                      auditLevel = Metadata\<rparr>,
             killSwitchActive = False, killSwitchMessage = None\<rparr>"
          "\<lparr>version = 1,
            tools = \<lparr>allow = Some [''read'', ''exec''], deny = Some [''exec''], profile = None\<rparr>,
            skills_approved = [], skills_requireApproval = False,
            killSwitch = \<lparr>active = False, message = None\<rparr>,
            auditLevel = Metadata\<rparr>"
          "[''exec'']" "[''read'', ''exec'']" "\<lparr>toolName = ''exec''\<rparr>"
          "\<lparr>agentId = None, sessionKey = None\<rparr>"]
    by (simp add: normalizeToolName_exec d a)
qed

text \<open>
  C3. The hook decides on a name exactly as it decides on the normalized form of that
  name: the same verdict (block or let through) and the same calls to \<open>enqueue\<close>, hence the
  same audited tool name, outcome and reason. (The text of \<open>blockReason\<close> quotes the name as
  the caller wrote it, so it is not part of the comparison.)
\<close>

theorem normalized_name_same_decision:
  "map_option block (fst (createToolEnforcerHook state event ctx))
     = map_option block
         (fst (createToolEnforcerHook state
                 (event\<lparr>toolName := normalizeToolName (toolName event)\<rparr>) ctx))
   \<and> snd (createToolEnforcerHook state event ctx)
     = snd (createToolEnforcerHook state
              (event\<lparr>toolName := normalizeToolName (toolName event)\<rparr>) ctx)"
  by (simp add: createToolEnforcerHook_def normalizeToolName_idem Let_def
           split: option.splits)

theorem normalized_name_same_decision_witness:
  "normalizeToolName ''bash'' = ''exec''
   \<and> map_option block
       (fst (createToolEnforcerHook
               \<lparr>policy = Some \<lparr>version = 1,
                                tools = \<lparr>allow = None, deny = Some [''exec''], profile = None\<rparr>,
                                skills_approved = [], skills_requireApproval = False,
                                killSwitch = \<lparr>active = False, message = None\<rparr>,
                                auditLevel = Metadata\<rparr>,
                killSwitchActive = False, killSwitchMessage = None\<rparr>
               \<lparr>toolName = ''bash''\<rparr> \<lparr>agentId = None, sessionKey = None\<rparr>))
     = Some True
   \<and> snd (createToolEnforcerHook
            \<lparr>policy = Some \<lparr>version = 1,
                             tools = \<lparr>allow = None, deny = Some [''exec''], profile = None\<rparr>,
                             skills_approved = [], skills_requireApproval = False,
                             killSwitch = \<lparr>active = False, message = None\<rparr>,
                             auditLevel = Metadata\<rparr>,
             killSwitchActive = False, killSwitchMessage = None\<rparr>
            \<lparr>toolName = ''bash''\<rparr> \<lparr>agentId = None, sessionKey = None\<rparr>)
     = [\<lparr>p_eventType = tool_call_attempt, p_toolName = Some ''exec'', p_outcome = blocked,
         p_agentId = None, p_sessionKey = None,
         p_metadata = Some [(''reason'', JString ''deny_list'')]\<rparr>]"
proof -
  have n: "normalizeToolName ''bash'' = ''exec''" by code_simp
  have d: "''exec'' \<in> expandGroups [''exec'']" by code_simp
  have canon:
    "createToolEnforcerHook
       \<lparr>policy = Some \<lparr>version = 1,
                        tools = \<lparr>allow = None, deny = Some [''exec''], profile = None\<rparr>,
                        skills_approved = [], skills_requireApproval = False,
                        killSwitch = \<lparr>active = False, message = None\<rparr>,
                        auditLevel = Metadata\<rparr>,
        killSwitchActive = False, killSwitchMessage = None\<rparr>
       \<lparr>toolName = ''exec''\<rparr> \<lparr>agentId = None, sessionKey = None\<rparr>
     = (Some \<lparr>block = True,
              blockReason = ''ClawGuard: Tool '' @ [CHR 0x22] @ ''exec'' @ [CHR 0x22]
                            @ '' is blocked by organization policy''\<rparr>,
        [\<lparr>p_eventType = tool_call_attempt, p_toolName = Some ''exec'', p_outcome = blocked,
          p_agentId = None, p_sessionKey = None,
          p_metadata = Some [(''reason'', JString ''deny_list'')]\<rparr>])"
    by (simp add: createToolEnforcerHook_def attempt_def reason_def normalizeToolName_exec d)
  show ?thesis
    using normalized_name_same_decision
      [of "\<lparr>policy = Some \<lparr>version = 1,
                      tools = \<lparr>allow = None, deny = Some [''exec''], profile = None\<rparr>,
                      skills_approved = [], skills_requireApproval = False,
                      killSwitch = \<lparr>active = False, message = None\<rparr>,
                      auditLevel = Metadata\<rparr>,
             killSwitchActive = False, killSwitchMessage = None\<rparr>"
          "\<lparr>toolName = ''bash''\<rparr>" "\<lparr>agentId = None, sessionKey = None\<rparr>"]
    by (simp add: n canon)
qed

subsection \<open>Policy cache\<close>

text \<open>
  C4. After \<open>saveCachedPolicy(policy, T)\<close> at time \<open>t0\<close>, \<open>loadCachedPolicy(T)\<close> at time \<open>now\<close>
  returns the saved policy if \<open>now - t0 \<le> T\<close> and \<open>null\<close> otherwise, and
  \<open>loadCachedPolicyFallback\<close> returns the saved policy whatever the time. When the cache file
  is missing, or holds text that \<open>JSON.parse\<close> rejects, both loads return \<open>null\<close>; neither
  has an error result. The one assumption on the library is that \<open>JSON.parse\<close> gives back the
  value \<open>JSON.stringify\<close> wrote.
\<close>

theorem cache_round_trip:
  "(saveCachedPolicy stringify pol (Some T) t0 disk = Inr disk'
      \<and> parse (stringify \<lparr>cp_policy = pol, cp_fetchedAt = t0, cp_ttlMs = Some T\<rparr>)
          = Some \<lparr>cp_policy = pol, cp_fetchedAt = t0, cp_ttlMs = Some T\<rparr>
    \<longrightarrow> loadCachedPolicy parse (Some T) now disk' = (if now - t0 \<le> T then Some pol else None)
        \<and> loadCachedPolicyFallback parse disk' = Some pol)
   \<and> (cache_file d = None \<or> (\<exists>raw. cache_file d = Some raw \<and> parse raw = None)
    \<longrightarrow> loadCachedPolicy parse ttl now d = None \<and> loadCachedPolicyFallback parse d = None)"
proof (intro conjI impI)
  assume a: "saveCachedPolicy stringify pol (Some T) t0 disk = Inr disk'
      \<and> parse (stringify \<lparr>cp_policy = pol, cp_fetchedAt = t0, cp_ttlMs = Some T\<rparr>)
          = Some \<lparr>cp_policy = pol, cp_fetchedAt = t0, cp_ttlMs = Some T\<rparr>"
  then have written: "cache_file disk'
      = Some (stringify \<lparr>cp_policy = pol, cp_fetchedAt = t0, cp_ttlMs = Some T\<rparr>)"
    by (auto simp: saveCachedPolicy_def Let_def split: if_splits)
  with a show "loadCachedPolicy parse (Some T) now disk' = (if now - t0 \<le> T then Some pol else None)"
    by (simp add: loadCachedPolicy_def)
  from a written show "loadCachedPolicyFallback parse disk' = Some pol"
    by (simp add: loadCachedPolicyFallback_def)
next
  assume "cache_file d = None \<or> (\<exists>raw. cache_file d = Some raw \<and> parse raw = None)"
  then show "loadCachedPolicy parse ttl now d = None"
    by (auto simp: loadCachedPolicy_def)
next
  assume "cache_file d = None \<or> (\<exists>raw. cache_file d = Some raw \<and> parse raw = None)"
  then show "loadCachedPolicyFallback parse d = None"
    by (auto simp: loadCachedPolicyFallback_def)
qed

theorem cache_round_trip_witness:
  "saveCachedPolicy sample_cache_stringify sample_policy (Some 60000) 1000 sample_disk
     = Inr (sample_disk\<lparr>cache_file := Some ''{cached}''\<rparr>)
   \<and> loadCachedPolicy sample_cache_parse (Some 60000) 61000
       (sample_disk\<lparr>cache_file := Some ''{cached}''\<rparr>) = Some sample_policy
   \<and> loadCachedPolicyFallback sample_cache_parse
       (sample_disk\<lparr>cache_file := Some ''{cached}''\<rparr>) = Some sample_policy
   \<and> loadCachedPolicy sample_cache_parse (Some 60000) 61000 sample_disk = None
   \<and> loadCachedPolicyFallback sample_cache_parse sample_disk = None"
proof -
  have s: "saveCachedPolicy sample_cache_stringify sample_policy (Some 60000) 1000 sample_disk
     = Inr (sample_disk\<lparr>cache_file := Some ''{cached}''\<rparr>)"
    by (simp add: saveCachedPolicy_def sample_cache_stringify_def sample_disk_def)
  have p: "sample_cache_parse (sample_cache_stringify
             \<lparr>cp_policy = sample_policy, cp_fetchedAt = 1000, cp_ttlMs = Some 60000\<rparr>)
           = Some \<lparr>cp_policy = sample_policy, cp_fetchedAt = 1000, cp_ttlMs = Some 60000\<rparr>"
    by (simp add: sample_cache_parse_def sample_cache_stringify_def)
  have m: "cache_file sample_disk = None" by (simp add: sample_disk_def)
  show ?thesis
    using cache_round_trip
      [of sample_cache_stringify sample_policy 60000 1000 sample_disk
          "sample_disk\<lparr>cache_file := Some ''{cached}''\<rparr>" sample_cache_parse 61000
          sample_disk "Some 60000"]
      s p m
    by simp
qed

text \<open>Past the TTL the same load is a miss, while the fallback still answers.\<close>

lemma cache_expired_example:
  "loadCachedPolicy sample_cache_parse (Some 60000) 61001
     (sample_disk\<lparr>cache_file := Some ''{cached}''\<rparr>) = None"
  by (simp add: loadCachedPolicy_def sample_cache_parse_def sample_disk_def)

subsection \<open>Heartbeat and kill switch\<close>

lemma enforcerState_log [simp]: "enforcerState (log entry h) = enforcerState h"
  by (simp add: log_def)

lemma manager_log [simp]: "manager (log entry h) = manager h"
  by (simp add: log_def)

lemma refreshCalls_log [simp]: "refreshCalls (log entry h) = refreshCalls h"
  by (simp add: log_def)

lemma enforcerState_handleFailure [simp]:
  "enforcerState (handleFailure why h) = enforcerState h"
  by (simp add: handleFailure_def Let_def)

lemma manager_handleFailure [simp]:
  "manager (handleFailure why h)
     = (manager h)\<lparr>ks_consecutiveFailures := ks_consecutiveFailures (manager h) + 1\<rparr>"
  by (simp add: handleFailure_def Let_def)

lemma heartbeat_failed:
  assumes "ks_controlPlaneUrl (manager h) \<noteq> []" and "failed result"
  shows "\<exists>why. heartbeat result h = handleFailure why h"
  using assms
  by (auto simp: heartbeat_def failed_def split: fetch_result.splits sum.splits)

lemma heartbeats_failed:
  assumes "ks_controlPlaneUrl (manager h) \<noteq> []" and "\<forall>result \<in> set results. failed result"
  shows "enforcerState (heartbeats results h) = enforcerState h
         \<and> manager (heartbeats results h)
           = (manager h)\<lparr>ks_consecutiveFailures :=
                           ks_consecutiveFailures (manager h) + length results\<rparr>"
  using assms
proof (induction results arbitrary: h)
  case Nil
  then show ?case by (simp add: heartbeats_def)
next
  case (Cons r rs)
  then obtain why where w: "heartbeat r h = handleFailure why h"
    using heartbeat_failed [of h r] by auto
  have url: "ks_controlPlaneUrl (manager (handleFailure why h)) \<noteq> []"
    using Cons.prems(1) by simp
  have step: "heartbeats (r # rs) h = heartbeats rs (handleFailure why h)"
    by (simp add: heartbeats_def w)
  from Cons.IH [OF url] Cons.prems(2) show ?case
    by (simp add: step)
qed

text \<open>
  C8. A 2xx heartbeat response whose body parses sets \<open>killSwitchActive\<close> to the response's
  \<open>killSwitch\<close>, sets \<open>killSwitchMessage\<close> to the response's message when the switch is on and
  clears it when the switch is off, resets the consecutive-failure counter to zero, and
  invokes the injected refresh callback once when \<open>refreshPolicyNow\<close> is set and not at all
  otherwise. The policy held in the shared state is not touched.
\<close>

theorem heartbeat_success_applies_response:
  assumes "ks_controlPlaneUrl (manager h) \<noteq> []" and "response_ok status"
  shows "killSwitchActive (enforcerState (heartbeat (Responded status (Inr data)) h))
           = hb_killSwitch data
       \<and> killSwitchMessage (enforcerState (heartbeat (Responded status (Inr data)) h))
           = (if hb_killSwitch data then hb_killSwitchMessage data else None)
       \<and> policy (enforcerState (heartbeat (Responded status (Inr data)) h))
           = policy (enforcerState h)
       \<and> ks_consecutiveFailures (manager (heartbeat (Responded status (Inr data)) h)) = 0
       \<and> refreshCalls (heartbeat (Responded status (Inr data)) h)
           = (if refreshPolicyNow data \<and> ks_onPolicyRefreshNeeded (manager h)
              then refreshCalls h + 1 else refreshCalls h)"
  using assms by (simp add: heartbeat_def Let_def)

theorem heartbeat_success_applies_response_witness:
  "killSwitchActive (enforcerState (heartbeat
       (Responded 200 (Inr \<lparr>policyVersion = 1, hb_killSwitch = True,
                              hb_killSwitchMessage = Some ''Shutdown now'',
                              refreshPolicyNow = True\<rparr>)) sample_heartbeat))
   \<and> killSwitchMessage (enforcerState (heartbeat
       (Responded 200 (Inr \<lparr>policyVersion = 1, hb_killSwitch = True,
                              hb_killSwitchMessage = Some ''Shutdown now'',
                              refreshPolicyNow = True\<rparr>)) sample_heartbeat))
     = Some ''Shutdown now''
   \<and> ks_consecutiveFailures (manager (heartbeat
       (Responded 200 (Inr \<lparr>policyVersion = 1, hb_killSwitch = True,
                              hb_killSwitchMessage = Some ''Shutdown now'',
                              refreshPolicyNow = True\<rparr>)) sample_heartbeat)) = 0
   \<and> refreshCalls (heartbeat
       (Responded 200 (Inr \<lparr>policyVersion = 1, hb_killSwitch = True,
                              hb_killSwitchMessage = Some ''Shutdown now'',
                              refreshPolicyNow = True\<rparr>)) sample_heartbeat) = 1"
proof -
  have u: "ks_controlPlaneUrl (manager sample_heartbeat) \<noteq> []"
    by (simp add: sample_heartbeat_def)
  have ok: "response_ok 200" by (simp add: response_ok_def)
  have c: "ks_onPolicyRefreshNeeded (manager sample_heartbeat)"
    by (simp add: sample_heartbeat_def)
  have r: "refreshCalls sample_heartbeat = 0" by (simp add: sample_heartbeat_def)
  show ?thesis
    using heartbeat_success_applies_response
      [OF u ok, of "\<lparr>policyVersion = 1, hb_killSwitch = True,
                      hb_killSwitchMessage = Some ''Shutdown now'',
                      refreshPolicyNow = True\<rparr>"]
      c r
    by simp
qed

text \<open>
  C9. \<open>handleFailure\<close> adds one to the consecutive-failure counter and leaves the shared
  enforcement state as it was. Hence after any run of failed heartbeats (a non-2xx status,
  an exception of the request, or a body that does not parse) the kill switch, its message
  and the policy are what they were before, and the counter has grown by the length of the
  run, whether or not it passed the threshold. At the threshold the logger, when there is
  one, receives the escalation message; nothing else happens.
\<close>

theorem heartbeat_failure_keeps_enforcement_state:
  "enforcerState (handleFailure why h) = enforcerState h
   \<and> ks_consecutiveFailures (manager (handleFailure why h))
     = ks_consecutiveFailures (manager h) + 1
   \<and> (ks_controlPlaneUrl (manager h) \<noteq> [] \<and> (\<forall>result \<in> set results. failed result)
      \<longrightarrow> enforcerState (heartbeats results h) = enforcerState h
          \<and> ks_consecutiveFailures (manager (heartbeats results h))
            = ks_consecutiveFailures (manager h) + length results)
   \<and> (ks_logger (manager h)
        \<and> int (ks_consecutiveFailures (manager h) + 1) \<ge> ks_failureThreshold (manager h)
      \<longrightarrow> logged (handleFailure why h)
          = logged h @ [Warn_HeartbeatFailed (ks_consecutiveFailures (manager h) + 1)
                          (ks_failureThreshold (manager h)) why,
                        Error_ThresholdReached (ks_failureThreshold (manager h))])"
proof (intro conjI impI)
  show "enforcerState (handleFailure why h) = enforcerState h" by simp
  show "ks_consecutiveFailures (manager (handleFailure why h))
          = ks_consecutiveFailures (manager h) + 1" by simp
next
  assume a: "ks_controlPlaneUrl (manager h) \<noteq> [] \<and> (\<forall>result \<in> set results. failed result)"
  then have "enforcerState (heartbeats results h) = enforcerState h
         \<and> manager (heartbeats results h)
           = (manager h)\<lparr>ks_consecutiveFailures :=
                           ks_consecutiveFailures (manager h) + length results\<rparr>"
    using heartbeats_failed [of h results] by blast
  then show "enforcerState (heartbeats results h) = enforcerState h"
    and "ks_consecutiveFailures (manager (heartbeats results h))
            = ks_consecutiveFailures (manager h) + length results"
    by simp_all
next
  assume "ks_logger (manager h)
        \<and> int (ks_consecutiveFailures (manager h) + 1) \<ge> ks_failureThreshold (manager h)"
  then show "logged (handleFailure why h)
          = logged h @ [Warn_HeartbeatFailed (ks_consecutiveFailures (manager h) + 1)
                          (ks_failureThreshold (manager h)) why,
                        Error_ThresholdReached (ks_failureThreshold (manager h))]"
    by (simp add: handleFailure_def Let_def log_def)
qed

theorem heartbeat_failure_keeps_enforcement_state_witness:
  "enforcerState
     (heartbeats [Responded 503 (Inl []), Threw ''ECONNREFUSED'', Responded 500 (Inl [])]
        (sample_heartbeat\<lparr>manager := (manager sample_heartbeat)\<lparr>ks_consecutiveFailures := 2\<rparr>\<rparr>))
     = \<lparr>policy = None, killSwitchActive = False, killSwitchMessage = None\<rparr>
   \<and> ks_consecutiveFailures
       (manager
          (heartbeats [Responded 503 (Inl []), Threw ''ECONNREFUSED'', Responded 500 (Inl [])]
             (sample_heartbeat\<lparr>manager := (manager sample_heartbeat)\<lparr>ks_consecutiveFailures := 2\<rparr>\<rparr>)))
     = 5
   \<and> enforcerState
       (handleFailure (HttpStatus 503)
          (sample_heartbeat\<lparr>manager := (manager sample_heartbeat)\<lparr>ks_consecutiveFailures := 2\<rparr>\<rparr>))
     = \<lparr>policy = None, killSwitchActive = False, killSwitchMessage = None\<rparr>
   \<and> logged
       (handleFailure (HttpStatus 503)
          (sample_heartbeat\<lparr>manager := (manager sample_heartbeat)\<lparr>ks_consecutiveFailures := 2\<rparr>\<rparr>))
     = [Warn_HeartbeatFailed 3 3 (HttpStatus 503), Error_ThresholdReached 3]"
proof -
  have f: "\<forall>result \<in> set [Responded 503 (Inl []), Threw ''ECONNREFUSED'', Responded 500 (Inl [])].
             failed result"
    by (simp add: failed_def response_ok_def)
  show ?thesis
    using heartbeat_failure_keeps_enforcement_state
      [of "HttpStatus 503"
          "sample_heartbeat\<lparr>manager := (manager sample_heartbeat)\<lparr>ks_consecutiveFailures := 2\<rparr>\<rparr>"
          "[Responded 503 (Inl []), Threw ''ECONNREFUSED'', Responded 500 (Inl [])]"]
      f
    by (simp add: sample_heartbeat_def)
qed

subsection \<open>Audit logger\<close>

lemma isWhiteSpace_newline [simp]: "isWhiteSpace (CHR 0x0A)"
  by (simp add: isWhiteSpace_def)

lemma split_nl_not_Nil [simp]: "split_nl s \<noteq> []"
  by (induction s) (auto split: list.splits)

lemma split_nl_line: "CHR 0x0A \<notin> set l \<Longrightarrow> split_nl l = [l]"
  by (induction l) auto

lemma split_nl_append: "CHR 0x0A \<notin> set l \<Longrightarrow> split_nl (l @ CHR 0x0A # rest) = l # split_nl rest"
  by (induction l) (auto split: list.splits)

text \<open>Splitting at the newlines undoes joining lines that hold no newline.\<close>

lemma split_nl_join_nl:
  "ls \<noteq> [] \<Longrightarrow> \<forall>l \<in> set ls. CHR 0x0A \<notin> set l \<Longrightarrow> split_nl (join_nl ls) = ls"
proof (induction ls rule: join_nl.induct)
  case 1
  then show ?case by simp
next
  case (2 l)
  then show ?case by (simp add: split_nl_line)
next
  case (3 l l' ls)
  then show ?case by (simp add: split_nl_append)
qed

lemma join_nl_Nil_iff: "join_nl ls = [] \<longleftrightarrow> (\<forall>l \<in> set ls. l = []) \<and> length ls \<le> 1"
  by (induction ls rule: join_nl.induct) auto

lemma hd_join_nl: "ls \<noteq> [] \<Longrightarrow> hd ls \<noteq> [] \<Longrightarrow> hd (join_nl ls) = hd (hd ls)"
  by (induction ls rule: join_nl.induct) auto

lemma last_join_nl: "ls \<noteq> [] \<Longrightarrow> last ls \<noteq> [] \<Longrightarrow> last (join_nl ls) = last (last ls)"
proof (induction ls rule: join_nl.induct)
  case 1
  then show ?case by simp
next
  case (2 l)
  then show ?case by simp
next
  case (3 l l' ls)
  have "last (l' # ls) \<in> set (l' # ls)" by (rule last_in_set) simp
  with "3.prems" have "join_nl (l' # ls) \<noteq> []"
    by (auto simp: join_nl_Nil_iff)
  with 3 show ?case by simp
qed

lemma trim_append_newline:
  assumes "s \<noteq> []" and "\<not> isWhiteSpace (hd s)" and "\<not> isWhiteSpace (last s)"
  shows "trim (s @ [CHR 0x0A]) = s"
proof -
  have "dropWhile isWhiteSpace (s @ [CHR 0x0A]) = s @ [CHR 0x0A]"
    using assms(1,2) by (simp add: dropWhile_self)
  moreover have "dropWhile isWhiteSpace (rev s) = rev s"
    using assms(1,3) by (simp add: dropWhile_self hd_rev)
  ultimately show ?thesis by (simp add: trim_def)
qed

lemma load_loop:
  "foldl (\<lambda>lg line. case parse line of
                      Some event \<Rightarrow> lg\<lparr>al_buffer := al_buffer lg @ [event]\<rparr>
                    | None \<Rightarrow> lg) logger lines
     = logger\<lparr>al_buffer := al_buffer logger @ List.map_filter parse lines\<rparr>"
  by (induction lines arbitrary: logger) (auto split: option.splits)

lemma loadPersistedBuffer_eq:
  "loadPersistedBuffer parse disk logger =
     (case buffer_file disk of
        None \<Rightarrow> logger
      | Some raw \<Rightarrow>
          logger\<lparr>al_buffer := al_buffer logger
                    @ List.map_filter parse
                        (filter (\<lambda>line. line \<noteq> []) (split_nl (trim raw)))\<rparr>)"
  by (simp add: loadPersistedBuffer_def load_loop Let_def split: option.splits)

text \<open>
  A snapshot made of lines, the first and last of them without white space at the outer
  ends: the well-formed lines are loaded in file order and the others are dropped one by
  one.
\<close>

lemma loadPersistedBuffer_lines:
  assumes "buffer_file disk = Some (join_nl ls @ [CHR 0x0A])"
    and "\<forall>l \<in> set ls. CHR 0x0A \<notin> set l"
    and "ls \<noteq> [] \<longrightarrow> hd ls \<noteq> [] \<and> \<not> isWhiteSpace (hd (hd ls))
                        \<and> last ls \<noteq> [] \<and> \<not> isWhiteSpace (last (last ls))"
  shows "al_buffer (loadPersistedBuffer parse disk logger)
           = al_buffer logger @ List.map_filter parse (filter (\<lambda>line. line \<noteq> []) ls)"
proof (cases "ls = []")
  case True
  have "trim [CHR 0x0A] = []" by (simp add: trim_def)
  with True assms(1) show ?thesis
    by (simp add: loadPersistedBuffer_eq)
next
  case False
  with assms(3) have e: "hd ls \<noteq> []" "\<not> isWhiteSpace (hd (hd ls))"
    "last ls \<noteq> []" "\<not> isWhiteSpace (last (last ls))" by auto
  have ne: "join_nl ls \<noteq> []" using False e(1) by (auto simp: join_nl_Nil_iff)
  have "trim (join_nl ls @ [CHR 0x0A]) = join_nl ls"
    using ne False e by (intro trim_append_newline) (simp_all add: hd_join_nl last_join_nl)
  moreover have "split_nl (join_nl ls) = ls"
    using False assms(2) by (rule split_nl_join_nl)
  ultimately show ?thesis using assms(1) by (simp add: loadPersistedBuffer_eq)
qed

lemma map_filter_round_trip:
  "\<forall>e \<in> set events. parse (stringify e) = Some e
     \<Longrightarrow> List.map_filter parse (map stringify events) = events"
  by (induction events) auto

lemma new_AuditLogger_buffer:
  "al_buffer (new_AuditLogger parse config session level disk) =
     (case buffer_file disk of
        None \<Rightarrow> []
      | Some raw \<Rightarrow> List.map_filter parse (filter (\<lambda>line. line \<noteq> []) (split_nl (trim raw))))"
  by (simp add: new_AuditLogger_def loadPersistedBuffer_eq split: option.splits)

lemma new_AuditLogger_url:
  "al_controlPlaneUrl (new_AuditLogger parse config session level disk)
     = (case controlPlaneUrl config of Some u \<Rightarrow> u | None \<Rightarrow> [])"
  by (simp add: new_AuditLogger_def loadPersistedBuffer_eq split: option.splits)

lemma reload_persisted:
  assumes "writable disk"
    and "\<forall>e \<in> set events. parse (stringify e) = Some e \<and> stringify e \<noteq> []
           \<and> CHR 0x0A \<notin> set (stringify e)
           \<and> \<not> isWhiteSpace (hd (stringify e)) \<and> \<not> isWhiteSpace (last (stringify e))"
  shows "al_buffer (new_AuditLogger parse config session level
                      (persistBuffer stringify events disk)) = events"
proof -
  let ?ls = "map stringify events"
  have f: "buffer_file (persistBuffer stringify events disk) = Some (join_nl ?ls @ [CHR 0x0A])"
    using assms(1) by (simp add: persistBuffer_def)
  have nl: "\<forall>l \<in> set ?ls. CHR 0x0A \<notin> set l" using assms(2) by auto
  have ends: "?ls \<noteq> [] \<longrightarrow> hd ?ls \<noteq> [] \<and> \<not> isWhiteSpace (hd (hd ?ls))
                        \<and> last ?ls \<noteq> [] \<and> \<not> isWhiteSpace (last (last ?ls))"
    using assms(2) by (auto simp: hd_map last_map)
  have keep: "filter (\<lambda>line. line \<noteq> []) ?ls = ?ls"
    using assms(2) by (auto simp: filter_id_conv)
  have parsed: "List.map_filter parse ?ls = events"
    using assms(2) by (intro map_filter_round_trip) simp
  have "al_buffer (loadPersistedBuffer parse (persistBuffer stringify events disk) logger)
          = al_buffer logger @ events" for logger
    using loadPersistedBuffer_lines [OF f nl ends, of parse logger]
    by (simp only: keep parsed)
  then show ?thesis by (simp add: new_AuditLogger_def)
qed

lemma persistBuffer_file:
  "writable disk \<Longrightarrow>
     buffer_file (persistBuffer stringify events disk)
       = Some (join_nl (map stringify events) @ [CHR 0x0A])"
  by (simp add: persistBuffer_def)

lemma writable_persistBuffer [simp]:
  "writable (persistBuffer stringify events disk) = writable disk"
  by (simp add: persistBuffer_def)

lemma auditEvent_buffer [simp]: "auditEvent (logger\<lparr>al_buffer := b\<rparr>) = auditEvent logger"
  by (rule ext, rule ext) (simp add: auditEvent_def)

lemma flush_begin_frame:
  assumes "flush_begin stringify logger disk = (st, logger', disk')"
  shows "al_buffer logger' = [] \<and> al_controlPlaneUrl logger' = al_controlPlaneUrl logger
         \<and> writable disk' = writable disk \<and> auditEvent logger' = auditEvent logger"
  using assms by (auto simp: flush_begin_def Let_def split: if_splits)

lemma enqueue_frame:
  assumes "enqueue stringify params now logger disk = (st, logger', disk')"
  shows "al_controlPlaneUrl logger' = al_controlPlaneUrl logger
         \<and> writable disk' = writable disk \<and> auditEvent logger' = auditEvent logger
         \<and> set (al_buffer logger') \<subseteq> insert (auditEvent logger params now) (set (al_buffer logger))"
proof (cases "al_auditLevel logger = Off")
  case True
  with assms show ?thesis by (auto simp: enqueue_def)
next
  case False
  let ?l = "logger\<lparr>al_buffer := al_buffer logger @ [auditEvent logger params now]\<rparr>"
  show ?thesis
  proof (cases "int (length (al_buffer ?l)) \<ge> al_batchSize ?l")
    case True
    with assms False have "flush_begin stringify ?l disk = (st, logger', disk')"
      by (simp add: enqueue_def Let_def)
    from flush_begin_frame [OF this] show ?thesis by simp
  next
    case nf: False
    with assms False have "logger' = ?l" "disk' = disk"
      by (simp_all add: enqueue_def Let_def)
    then show ?thesis by auto
  qed
qed

lemma enqueue_all_frame:
  assumes "enqueue_all stringify calls logger disk = (sts, logger', disk')"
  shows "al_controlPlaneUrl logger' = al_controlPlaneUrl logger
         \<and> writable disk' = writable disk \<and> auditEvent logger' = auditEvent logger
         \<and> set (al_buffer logger')
             \<subseteq> set (al_buffer logger) \<union> (\<lambda>(params, now). auditEvent logger params now) ` set calls"
  using assms
proof (induction calls arbitrary: logger disk sts)
  case Nil
  then show ?case by simp
next
  case (Cons call rest)
  obtain params now where c: "call = (params, now)" by (cases call)
  obtain st l1 d1 where e: "enqueue stringify params now logger disk = (st, l1, d1)"
    by (cases "enqueue stringify params now logger disk")
  from Cons.prems c e obtain sts' where r: "enqueue_all stringify rest l1 d1 = (sts', logger', disk')"
    by (auto split: prod.splits)
  note f1 = enqueue_frame [OF e]
  note f2 = Cons.IH [OF r]
  from f1 f2 show ?case unfolding c by auto
qed

text \<open>
  A flush with nothing running in between, whose request fails, ends with the buffer it
  started with and with that buffer on disk.
\<close>

lemma flush_failed_keeps_buffer:
  assumes "al_controlPlaneUrl logger \<noteq> []" and "\<not> shipped result"
  shows "flush stringify result logger disk
           = (if al_buffer logger = [] then (logger, disk)
              else (logger, persistBuffer stringify (al_buffer logger) disk))"
  using assms
  by (auto simp: flush_def flush_begin_def flush_end_def shipped_def Let_def
        split: fetch_result.splits)

text \<open>
  C5, as the code has it. The metadata is dropped when the event is built, in \<open>enqueue\<close>:
  at audit level \<open>metadata\<close> the stored event has none. A change of level before the next
  flush alters no stored event, so the flush transmits the event without metadata, also
  after \<open>updateAuditLevel('full')\<close>.
\<close>

theorem metadata_stripped_at_enqueue:
  assumes "al_auditLevel logger = Metadata"
    and "int (length (al_buffer logger)) + 1 < al_batchSize logger"
    and "al_controlPlaneUrl logger \<noteq> []"
  shows "enqueue stringify params now logger disk
           = (Idle,
              logger\<lparr>al_buffer := al_buffer logger
                        @ [(auditEvent logger params now)\<lparr>ev_metadata := None\<rparr>]\<rparr>,
              disk)
       \<and> flush_begin stringify
           (updateAuditLevel level
              (logger\<lparr>al_buffer := al_buffer logger
                         @ [(auditEvent logger params now)\<lparr>ev_metadata := None\<rparr>]\<rparr>))
           disk
         = (PostInFlight (al_buffer logger
                            @ [(auditEvent logger params now)\<lparr>ev_metadata := None\<rparr>]),
            (updateAuditLevel level logger)\<lparr>al_buffer := []\<rparr>,
            disk)"
  using assms
  by (simp add: enqueue_def flush_begin_def updateAuditLevel_def auditEvent_def Let_def)

theorem metadata_stripped_at_enqueue_witness:
  "enqueue sample_stringify sample_params 1000 sample_logger sample_disk
     = (Idle,
        sample_logger\<lparr>al_buffer :=
          [\<lparr>ev_userId = ''user-1'', ev_orgId = ''org-123'', ev_agentId = None,
            ev_sessionKey = None, ev_eventType = tool_call_attempt,
            ev_toolName = Some ''exec'', ev_timestamp = 1000, ev_outcome = blocked,
            ev_metadata = None\<rparr>]\<rparr>,
        sample_disk)
   \<and> flush_begin sample_stringify
       (updateAuditLevel Full
          (sample_logger\<lparr>al_buffer :=
             [\<lparr>ev_userId = ''user-1'', ev_orgId = ''org-123'', ev_agentId = None,
               ev_sessionKey = None, ev_eventType = tool_call_attempt,
               ev_toolName = Some ''exec'', ev_timestamp = 1000, ev_outcome = blocked,
               ev_metadata = None\<rparr>]\<rparr>))
       sample_disk
     = (PostInFlight
          [\<lparr>ev_userId = ''user-1'', ev_orgId = ''org-123'', ev_agentId = None,
            ev_sessionKey = None, ev_eventType = tool_call_attempt,
            ev_toolName = Some ''exec'', ev_timestamp = 1000, ev_outcome = blocked,
            ev_metadata = None\<rparr>],
        sample_logger\<lparr>al_auditLevel := Full\<rparr>,
        sample_disk)"
proof -
  have a: "al_auditLevel sample_logger = Metadata"
    and b: "int (length (al_buffer sample_logger)) + 1 < al_batchSize sample_logger"
    and c: "al_controlPlaneUrl sample_logger \<noteq> []"
    by (simp_all add: sample_logger_def)
  show ?thesis
    using metadata_stripped_at_enqueue
      [OF a b c, of sample_stringify sample_params 1000 sample_disk Full]
    by (simp add: auditEvent_def updateAuditLevel_def sample_logger_def sample_params_def)
qed

text \<open>
  C5, as the claim words it, fails: an event enqueued at level \<open>metadata\<close>, followed by
  \<open>updateAuditLevel('full')\<close> and a flush, is transmitted without its metadata.
\<close>

theorem metadata_not_restored_counterexample:
  "fst (flush_begin sample_stringify
          (updateAuditLevel Full
             (fst (snd (enqueue sample_stringify sample_params 1000 sample_logger sample_disk))))
          sample_disk)
     = PostInFlight
         [\<lparr>ev_userId = ''user-1'', ev_orgId = ''org-123'', ev_agentId = None,
           ev_sessionKey = None, ev_eventType = tool_call_attempt,
           ev_toolName = Some ''exec'', ev_timestamp = 1000, ev_outcome = blocked,
           ev_metadata = None\<rparr>]
   \<and> fst (flush_begin sample_stringify
          (updateAuditLevel Full
             (fst (snd (enqueue sample_stringify sample_params 1000 sample_logger sample_disk))))
          sample_disk)
     \<noteq> PostInFlight
         [\<lparr>ev_userId = ''user-1'', ev_orgId = ''org-123'', ev_agentId = None,
           ev_sessionKey = None, ev_eventType = tool_call_attempt,
           ev_toolName = Some ''exec'', ev_timestamp = 1000, ev_outcome = blocked,
           ev_metadata = p_metadata sample_params\<rparr>]"
  by (simp add: enqueue_def flush_begin_def updateAuditLevel_def auditEvent_def Let_def
        sample_logger_def sample_params_def)

text \<open>
  C6. A flush that has something to send and an endpoint to send it to detaches the whole
  buffer. When the request then fails (a non-2xx status or an exception), the batch goes
  back in front of whatever the buffer holds by then, in its original order, and the whole
  buffer is handed to \<open>persistBuffer\<close>: on a disk that takes the write, the snapshot file is
  the serialisation of exactly that buffer. When the request succeeds, the buffer is left
  alone and the snapshot is removed. Here \<open>logger\<close> and \<open>disk\<close> are the logger and the disk
  at the time the request settles.
\<close>

theorem failed_flush_requeues_and_persists:
  "(al_buffer logger0 \<noteq> [] \<and> al_controlPlaneUrl logger0 \<noteq> []
      \<longrightarrow> flush_begin stringify logger0 disk0
            = (PostInFlight (al_buffer logger0), logger0\<lparr>al_buffer := []\<rparr>, disk0))
   \<and> (\<not> shipped result
      \<longrightarrow> flush_end stringify result batch logger disk
            = (logger\<lparr>al_buffer := batch @ al_buffer logger\<rparr>,
               persistBuffer stringify (batch @ al_buffer logger) disk)
          \<and> (writable disk
              \<longrightarrow> buffer_file (snd (flush_end stringify result batch logger disk))
                    = Some (join_nl (map stringify (batch @ al_buffer logger)) @ [CHR 0x0A])))
   \<and> (shipped result
      \<longrightarrow> flush_end stringify result batch logger disk = (logger, clearPersistedBuffer disk)
          \<and> (writable disk
              \<longrightarrow> buffer_file (snd (flush_end stringify result batch logger disk)) = None))"
  by (auto simp: flush_begin_def flush_end_def shipped_def Let_def persistBuffer_def
        clearPersistedBuffer_def split: fetch_result.splits)

theorem failed_flush_requeues_and_persists_witness:
  "flush_begin sample_stringify (sample_logger\<lparr>al_buffer := [sample_event ''read'']\<rparr>) sample_disk
     = (PostInFlight [sample_event ''read''], sample_logger, sample_disk)
   \<and> flush_end sample_stringify (Responded 503 ()) [sample_event ''read'']
       (sample_logger\<lparr>al_buffer := [sample_event ''exec'']\<rparr>) sample_disk
     = (sample_logger\<lparr>al_buffer := [sample_event ''read'', sample_event ''exec'']\<rparr>,
        sample_disk\<lparr>buffer_file := Some (''{read}'' @ [CHR 0x0A] @ ''{exec}'' @ [CHR 0x0A])\<rparr>)
   \<and> flush_end sample_stringify (Responded 200 ()) [sample_event ''read'']
       (sample_logger\<lparr>al_buffer := [sample_event ''exec'']\<rparr>)
       (sample_disk\<lparr>buffer_file := Some (''{old}'' @ [CHR 0x0A])\<rparr>)
     = (sample_logger\<lparr>al_buffer := [sample_event ''exec'']\<rparr>, sample_disk)"
proof -
  have f: "\<not> shipped (Responded 503 ())" and s: "shipped (Responded 200 ())"
    by (simp_all add: shipped_def response_ok_def)
  have w: "writable sample_disk" by (simp add: sample_disk_def)
  have t: "sample_stringify (sample_event ''read'') = ''{read}''"
    "sample_stringify (sample_event ''exec'') = ''{exec}''"
    by (simp_all add: sample_stringify_def sample_event_def)
  show ?thesis
    using failed_flush_requeues_and_persists
        [of "sample_logger\<lparr>al_buffer := [sample_event ''read'']\<rparr>" sample_stringify sample_disk
            "Responded 503 ()" "[sample_event ''read'']"
            "sample_logger\<lparr>al_buffer := [sample_event ''exec'']\<rparr>" sample_disk]
      failed_flush_requeues_and_persists
        [of "sample_logger\<lparr>al_buffer := [sample_event ''read'']\<rparr>" sample_stringify sample_disk
            "Responded 200 ()" "[sample_event ''read'']"
            "sample_logger\<lparr>al_buffer := [sample_event ''exec'']\<rparr>"
            "sample_disk\<lparr>buffer_file := Some (''{old}'' @ [CHR 0x0A])\<rparr>"]
      f s w
    by (simp add: t persistBuffer_def clearPersistedBuffer_def sample_logger_def sample_disk_def)
qed

lemma new_AuditLogger_lines:
  assumes "buffer_file disk = Some (join_nl ls @ [CHR 0x0A])"
    and "\<forall>l \<in> set ls. CHR 0x0A \<notin> set l"
    and "ls \<noteq> [] \<longrightarrow> hd ls \<noteq> [] \<and> \<not> isWhiteSpace (hd (hd ls))
                        \<and> last ls \<noteq> [] \<and> \<not> isWhiteSpace (last (last ls))"
  shows "al_buffer (new_AuditLogger parse config session level disk)
           = List.map_filter parse (filter (\<lambda>line. line \<noteq> []) ls)"
proof -
  have "al_buffer (loadPersistedBuffer parse disk logger)
          = al_buffer logger @ List.map_filter parse (filter (\<lambda>line. line \<noteq> []) ls)"
    for logger
    using assms by (rule loadPersistedBuffer_lines)
  then show ?thesis by (simp add: new_AuditLogger_def)
qed

text \<open>
  C7. Constructing a logger never fails. Whatever the snapshot file holds, the buffer of
  the new logger is made of the lines that parse, in file order; lines that do not parse
  are passed over one at a time. For a snapshot written by \<open>persistBuffer\<close> this gives back
  exactly the persisted events, and the next flush takes them all: it empties the buffer
  and either posts exactly these events, leaving the disk alone, when an endpoint is
  configured, or hands exactly these events to \<open>persistBuffer\<close> otherwise, so that on a disk
  that takes the write the snapshot is their serialisation again. The assumptions on the
  library are those of JSON: \<open>JSON.stringify\<close> of an event is a non-empty text on one line
  with no white space at its ends, and \<open>JSON.parse\<close> reads it back.
\<close>

theorem persisted_events_reloaded:
  "al_buffer (new_AuditLogger parse config session level disk) =
     (case buffer_file disk of
        None \<Rightarrow> []
      | Some raw \<Rightarrow> List.map_filter parse (filter (\<lambda>line. line \<noteq> []) (split_nl (trim raw))))
   \<and> (buffer_file disk = Some (join_nl ls @ [CHR 0x0A])
        \<and> (\<forall>l \<in> set ls. CHR 0x0A \<notin> set l)
        \<and> (ls \<noteq> [] \<longrightarrow> hd ls \<noteq> [] \<and> \<not> isWhiteSpace (hd (hd ls))
                           \<and> last ls \<noteq> [] \<and> \<not> isWhiteSpace (last (last ls)))
      \<longrightarrow> al_buffer (new_AuditLogger parse config session level disk)
            = List.map_filter parse (filter (\<lambda>line. line \<noteq> []) ls))
   \<and> (writable disk
        \<and> (\<forall>e \<in> set events. parse (stringify e) = Some e \<and> stringify e \<noteq> []
               \<and> CHR 0x0A \<notin> set (stringify e)
               \<and> \<not> isWhiteSpace (hd (stringify e)) \<and> \<not> isWhiteSpace (last (stringify e)))
      \<longrightarrow> al_buffer (new_AuditLogger parse config session level
                         (persistBuffer stringify events disk)) = events
          \<and> (events \<noteq> []
              \<longrightarrow> flush_begin stringify
                      (new_AuditLogger parse config session level
                         (persistBuffer stringify events disk))
                      disk'
                    = (if (case controlPlaneUrl config of Some u \<Rightarrow> u | None \<Rightarrow> []) = []
                       then (PersistedLocally,
                             (new_AuditLogger parse config session level
                                (persistBuffer stringify events disk))\<lparr>al_buffer := []\<rparr>,
                             persistBuffer stringify events disk')
                       else (PostInFlight events,
                             (new_AuditLogger parse config session level
                                (persistBuffer stringify events disk))\<lparr>al_buffer := []\<rparr>,
                             disk'))
                  \<and> al_buffer
                      (fst (snd (flush_begin stringify
                                   (new_AuditLogger parse config session level
                                      (persistBuffer stringify events disk))
                                   disk'))) = []
                  \<and> ((case controlPlaneUrl config of Some u \<Rightarrow> u | None \<Rightarrow> []) = []
                        \<and> writable disk'
                      \<longrightarrow> buffer_file
                            (snd (snd (flush_begin stringify
                                         (new_AuditLogger parse config session level
                                            (persistBuffer stringify events disk))
                                         disk')))
                          = Some (join_nl (map stringify events) @ [CHR 0x0A]))))"
proof (intro conjI impI)
  show "al_buffer (new_AuditLogger parse config session level disk) =
     (case buffer_file disk of
        None \<Rightarrow> []
      | Some raw \<Rightarrow> List.map_filter parse (filter (\<lambda>line. line \<noteq> []) (split_nl (trim raw))))"
    by (rule new_AuditLogger_buffer)
next
  assume "buffer_file disk = Some (join_nl ls @ [CHR 0x0A])
        \<and> (\<forall>l \<in> set ls. CHR 0x0A \<notin> set l)
        \<and> (ls \<noteq> [] \<longrightarrow> hd ls \<noteq> [] \<and> \<not> isWhiteSpace (hd (hd ls))
                           \<and> last ls \<noteq> [] \<and> \<not> isWhiteSpace (last (last ls)))"
  then show "al_buffer (new_AuditLogger parse config session level disk)
            = List.map_filter parse (filter (\<lambda>line. line \<noteq> []) ls)"
    by (intro new_AuditLogger_lines) simp_all
next
  let ?L = "new_AuditLogger parse config session level (persistBuffer stringify events disk)"
  let ?url = "case controlPlaneUrl config of Some u \<Rightarrow> u | None \<Rightarrow> []"
  assume a: "writable disk
        \<and> (\<forall>e \<in> set events. parse (stringify e) = Some e \<and> stringify e \<noteq> []
               \<and> CHR 0x0A \<notin> set (stringify e)
               \<and> \<not> isWhiteSpace (hd (stringify e)) \<and> \<not> isWhiteSpace (last (stringify e)))"
  then show b: "al_buffer ?L = events"
    by (intro reload_persisted) simp_all
  assume ne: "events \<noteq> []"
  from b ne show full_result: "flush_begin stringify ?L disk'
                    = (if ?url = []
                       then (PersistedLocally, ?L\<lparr>al_buffer := []\<rparr>,
                             persistBuffer stringify events disk')
                       else (PostInFlight events, ?L\<lparr>al_buffer := []\<rparr>, disk'))"
    by (simp add: flush_begin_def Let_def new_AuditLogger_url)
  then show "al_buffer (fst (snd (flush_begin stringify ?L disk'))) = []"
    by simp
  assume "?url = [] \<and> writable disk'"
  with full_result
  show "buffer_file (snd (snd (flush_begin stringify ?L disk')))
          = Some (join_nl (map stringify events) @ [CHR 0x0A])"
    by (simp add: persistBuffer_file)
qed

theorem persisted_events_reloaded_witness:
  "al_buffer (new_AuditLogger sample_parse (sample_config\<lparr>controlPlaneUrl := None\<rparr>)
                sample_session (Some Metadata)
                (sample_disk\<lparr>buffer_file :=
                   Some (join_nl [''{read}'', ''{exe'', ''{write}''] @ [CHR 0x0A])\<rparr>))
     = [sample_event ''read'', sample_event ''write'']
   \<and> al_buffer (new_AuditLogger sample_parse (sample_config\<lparr>controlPlaneUrl := None\<rparr>)
                sample_session (Some Metadata)
                (persistBuffer sample_stringify [sample_event ''read'', sample_event ''exec'']
                   (sample_disk\<lparr>buffer_file :=
                      Some (join_nl [''{read}'', ''{exe'', ''{write}''] @ [CHR 0x0A])\<rparr>)))
     = [sample_event ''read'', sample_event ''exec'']
   \<and> fst (flush_begin sample_stringify
            (new_AuditLogger sample_parse (sample_config\<lparr>controlPlaneUrl := None\<rparr>)
               sample_session (Some Metadata)
               (persistBuffer sample_stringify [sample_event ''read'', sample_event ''exec'']
                  (sample_disk\<lparr>buffer_file :=
                     Some (join_nl [''{read}'', ''{exe'', ''{write}''] @ [CHR 0x0A])\<rparr>)))
            sample_disk)
     = PersistedLocally
   \<and> al_buffer
       (fst (snd (flush_begin sample_stringify
            (new_AuditLogger sample_parse (sample_config\<lparr>controlPlaneUrl := None\<rparr>)
               sample_session (Some Metadata)
               (persistBuffer sample_stringify [sample_event ''read'', sample_event ''exec'']
                  (sample_disk\<lparr>buffer_file :=
                     Some (join_nl [''{read}'', ''{exe'', ''{write}''] @ [CHR 0x0A])\<rparr>)))
            sample_disk)))
     = []
   \<and> snd (snd (flush_begin sample_stringify
            (new_AuditLogger sample_parse (sample_config\<lparr>controlPlaneUrl := None\<rparr>)
               sample_session (Some Metadata)
               (persistBuffer sample_stringify [sample_event ''read'', sample_event ''exec'']
                  (sample_disk\<lparr>buffer_file :=
                     Some (join_nl [''{read}'', ''{exe'', ''{write}''] @ [CHR 0x0A])\<rparr>)))
            sample_disk))
     = sample_disk\<lparr>buffer_file := Some (''{read}'' @ [CHR 0x0A] @ ''{exec}'' @ [CHR 0x0A])\<rparr>
   \<and> flush_begin sample_stringify
       (new_AuditLogger sample_parse sample_config sample_session (Some Metadata)
          (persistBuffer sample_stringify [sample_event ''read'', sample_event ''exec'']
             sample_disk))
       sample_disk
     = (PostInFlight [sample_event ''read'', sample_event ''exec''],
        (new_AuditLogger sample_parse sample_config sample_session (Some Metadata)
           (persistBuffer sample_stringify [sample_event ''read'', sample_event ''exec'']
              sample_disk))\<lparr>al_buffer := []\<rparr>,
        sample_disk)"
proof -
  have w: "writable (sample_disk\<lparr>buffer_file :=
                   Some (join_nl [''{read}'', ''{exe'', ''{write}''] @ [CHR 0x0A])\<rparr>)"
    and w': "writable sample_disk"
    by (simp_all add: sample_disk_def)
  have c: "\<forall>e \<in> set [sample_event ''read'', sample_event ''exec''].
             sample_parse (sample_stringify e) = Some e \<and> sample_stringify e \<noteq> []
             \<and> CHR 0x0A \<notin> set (sample_stringify e)
             \<and> \<not> isWhiteSpace (hd (sample_stringify e))
             \<and> \<not> isWhiteSpace (last (sample_stringify e))"
    by (simp add: sample_parse_def sample_stringify_def sample_event_def isWhiteSpace_def)
  have l: "(\<forall>l \<in> set [''{read}'', ''{exe'', ''{write}'']. CHR 0x0A \<notin> set l)
           \<and> \<not> isWhiteSpace (CHR ''{'') \<and> \<not> isWhiteSpace (CHR ''}'')"
    by (simp add: isWhiteSpace_def)
  have u: "controlPlaneUrl sample_config = Some ''https://clawguard.example.com''"
    by (simp add: sample_config_def)
  have t: "sample_stringify (sample_event ''read'') = ''{read}''"
    "sample_stringify (sample_event ''exec'') = ''{exec}''"
    by (simp_all add: sample_stringify_def sample_event_def)
  note no_url = persisted_events_reloaded
      [of sample_parse "sample_config\<lparr>controlPlaneUrl := None\<rparr>" sample_session
          "Some Metadata"
          "sample_disk\<lparr>buffer_file :=
             Some (join_nl [''{read}'', ''{exe'', ''{write}''] @ [CHR 0x0A])\<rparr>"
          "[''{read}'', ''{exe'', ''{write}'']"
          "[sample_event ''read'', sample_event ''exec'']" sample_stringify sample_disk]
  note with_url = persisted_events_reloaded
      [of sample_parse sample_config sample_session "Some Metadata" sample_disk "[]"
          "[sample_event ''read'', sample_event ''exec'']" sample_stringify sample_disk]
  have r1: "al_buffer (new_AuditLogger sample_parse (sample_config\<lparr>controlPlaneUrl := None\<rparr>)
                sample_session (Some Metadata)
                (sample_disk\<lparr>buffer_file :=
                   Some (join_nl [''{read}'', ''{exe'', ''{write}''] @ [CHR 0x0A])\<rparr>))
     = [sample_event ''read'', sample_event ''write'']"
    using no_url [THEN conjunct2, THEN conjunct1] l
    by (simp add: sample_parse_def)
  have r2: "al_buffer (new_AuditLogger sample_parse (sample_config\<lparr>controlPlaneUrl := None\<rparr>)
                sample_session (Some Metadata)
                (persistBuffer sample_stringify [sample_event ''read'', sample_event ''exec'']
                   (sample_disk\<lparr>buffer_file :=
                      Some (join_nl [''{read}'', ''{exe'', ''{write}''] @ [CHR 0x0A])\<rparr>)))
       = [sample_event ''read'', sample_event ''exec'']
     \<and> flush_begin sample_stringify
          (new_AuditLogger sample_parse (sample_config\<lparr>controlPlaneUrl := None\<rparr>)
             sample_session (Some Metadata)
             (persistBuffer sample_stringify [sample_event ''read'', sample_event ''exec'']
                (sample_disk\<lparr>buffer_file :=
                   Some (join_nl [''{read}'', ''{exe'', ''{write}''] @ [CHR 0x0A])\<rparr>)))
          sample_disk
       = (PersistedLocally,
          (new_AuditLogger sample_parse (sample_config\<lparr>controlPlaneUrl := None\<rparr>)
             sample_session (Some Metadata)
             (persistBuffer sample_stringify [sample_event ''read'', sample_event ''exec'']
                (sample_disk\<lparr>buffer_file :=
                   Some (join_nl [''{read}'', ''{exe'', ''{write}''] @ [CHR 0x0A])\<rparr>)))
            \<lparr>al_buffer := []\<rparr>,
          persistBuffer sample_stringify [sample_event ''read'', sample_event ''exec'']
            sample_disk)"
    using no_url [THEN conjunct2, THEN conjunct2] w c
    by simp
  have r3: "flush_begin sample_stringify
       (new_AuditLogger sample_parse sample_config sample_session (Some Metadata)
          (persistBuffer sample_stringify [sample_event ''read'', sample_event ''exec'']
             sample_disk))
       sample_disk
     = (PostInFlight [sample_event ''read'', sample_event ''exec''],
        (new_AuditLogger sample_parse sample_config sample_session (Some Metadata)
           (persistBuffer sample_stringify [sample_event ''read'', sample_event ''exec'']
              sample_disk))\<lparr>al_buffer := []\<rparr>,
        sample_disk)"
    using with_url [THEN conjunct2, THEN conjunct2] w' c
    by (simp add: u)
  have written: "persistBuffer sample_stringify [sample_event ''read'', sample_event ''exec'']
                sample_disk
              = sample_disk\<lparr>buffer_file :=
                  Some (''{read}'' @ [CHR 0x0A] @ ''{exec}'' @ [CHR 0x0A])\<rparr>"
    by (simp add: persistBuffer_def t sample_disk_def)
  from r1 r2 r3 show ?thesis
    by (simp add: written)
qed

text \<open>A snapshot with a damaged line between two good ones: the good ones are loaded.\<close>

lemma damaged_line_example:
  "al_buffer (new_AuditLogger sample_parse sample_config sample_session None
                (sample_disk\<lparr>buffer_file :=
                   Some (''{read}'' @ [CHR 0x0A] @ ''{exe'' @ [CHR 0x0A] @ ''{write}''
                         @ [CHR 0x0A])\<rparr>))
     = [sample_event ''read'', sample_event ''write'']"
proof -
  have "al_buffer (new_AuditLogger sample_parse sample_config sample_session None
                (sample_disk\<lparr>buffer_file :=
                   Some (join_nl [''{read}'', ''{exe'', ''{write}''] @ [CHR 0x0A])\<rparr>))
     = List.map_filter sample_parse
         (filter (\<lambda>line. line \<noteq> []) [''{read}'', ''{exe'', ''{write}''])"
    by (rule new_AuditLogger_lines) (simp_all add: isWhiteSpace_def)
  then show ?thesis by (simp add: sample_parse_def)
qed

text \<open>
  C10. With no endpoint configured, a flush of a non-empty buffer empties the buffer and
  hands the detached batch, and nothing else, to \<open>persistBuffer\<close>: on a disk that takes the
  write the snapshot file becomes the serialisation of exactly that batch, whatever it held
  before. So after a first such flush, further calls of \<open>enqueue\<close> and a second such flush,
  the buffer is empty and the snapshot is the serialisation of the second batch, which is
  made only of events built by those calls: an event of the first batch that was not built
  again is in neither.
\<close>

theorem local_flush_overwrites_snapshot:
  "(al_controlPlaneUrl logger = [] \<and> al_buffer logger \<noteq> []
      \<longrightarrow> flush_begin stringify logger disk
            = (PersistedLocally, logger\<lparr>al_buffer := []\<rparr>,
               persistBuffer stringify (al_buffer logger) disk)
          \<and> (writable disk
              \<longrightarrow> buffer_file (persistBuffer stringify (al_buffer logger) disk)
                    = Some (join_nl (map stringify (al_buffer logger)) @ [CHR 0x0A])))
   \<and> (al_controlPlaneUrl logger = [] \<and> al_buffer logger \<noteq> [] \<and> writable disk
        \<and> flush_begin stringify logger disk = (st1, logger1, disk1)
        \<and> enqueue_all stringify calls logger1 disk1 = (sts, logger2, disk2)
        \<and> al_buffer logger2 \<noteq> []
        \<and> flush_begin stringify logger2 disk2 = (st3, logger3, disk3)
      \<longrightarrow> al_buffer logger3 = []
          \<and> buffer_file disk3 = Some (join_nl (map stringify (al_buffer logger2)) @ [CHR 0x0A])
          \<and> set (al_buffer logger2) \<subseteq> (\<lambda>(params, now). auditEvent logger params now) ` set calls
          \<and> (\<forall>e \<in> set (al_buffer logger).
                e \<notin> (\<lambda>(params, now). auditEvent logger params now) ` set calls
                \<longrightarrow> e \<notin> set (al_buffer logger3) \<and> e \<notin> set (al_buffer logger2)))"
proof (intro conjI impI)
  assume "al_controlPlaneUrl logger = [] \<and> al_buffer logger \<noteq> []"
  then show "flush_begin stringify logger disk
            = (PersistedLocally, logger\<lparr>al_buffer := []\<rparr>,
               persistBuffer stringify (al_buffer logger) disk)"
    by (simp add: flush_begin_def Let_def)
next
  assume "writable disk"
  then show "buffer_file (persistBuffer stringify (al_buffer logger) disk)
                    = Some (join_nl (map stringify (al_buffer logger)) @ [CHR 0x0A])"
    by (rule persistBuffer_file)
next
  assume a: "al_controlPlaneUrl logger = [] \<and> al_buffer logger \<noteq> [] \<and> writable disk
        \<and> flush_begin stringify logger disk = (st1, logger1, disk1)
        \<and> enqueue_all stringify calls logger1 disk1 = (sts, logger2, disk2)
        \<and> al_buffer logger2 \<noteq> []
        \<and> flush_begin stringify logger2 disk2 = (st3, logger3, disk3)"
  then have f1: "flush_begin stringify logger disk = (st1, logger1, disk1)"
    and e: "enqueue_all stringify calls logger1 disk1 = (sts, logger2, disk2)"
    and f3: "flush_begin stringify logger2 disk2 = (st3, logger3, disk3)"
    by simp_all
  note i1 = flush_begin_frame [OF f1]
  note i2 = enqueue_all_frame [OF e]
  from a i1 i2 have url: "al_controlPlaneUrl logger2 = []" and w: "writable disk2" by simp_all
  from i1 i2 have sub:
    "set (al_buffer logger2) \<subseteq> (\<lambda>(params, now). auditEvent logger params now) ` set calls"
    by simp
  from a url f3 have l3: "logger3 = logger2\<lparr>al_buffer := []\<rparr>"
    and d3: "disk3 = persistBuffer stringify (al_buffer logger2) disk2"
    by (simp_all add: flush_begin_def Let_def)
  show "al_buffer logger3 = []" by (simp add: l3)
  show "buffer_file disk3 = Some (join_nl (map stringify (al_buffer logger2)) @ [CHR 0x0A])"
    using w by (simp add: d3 persistBuffer_file)
  show "set (al_buffer logger2) \<subseteq> (\<lambda>(params, now). auditEvent logger params now) ` set calls"
    by (rule sub)
  show "\<forall>e \<in> set (al_buffer logger).
                e \<notin> (\<lambda>(params, now). auditEvent logger params now) ` set calls
                \<longrightarrow> e \<notin> set (al_buffer logger3) \<and> e \<notin> set (al_buffer logger2)"
    using sub by (auto simp: l3)
qed

theorem local_flush_overwrites_snapshot_witness:
  "flush_begin sample_stringify
     (sample_logger\<lparr>al_controlPlaneUrl := [], al_buffer := [sample_event ''read'']\<rparr>) sample_disk
     = (PersistedLocally, sample_logger\<lparr>al_controlPlaneUrl := []\<rparr>,
        sample_disk\<lparr>buffer_file := Some (''{read}'' @ [CHR 0x0A])\<rparr>)
   \<and> enqueue_all sample_stringify [(sample_params, 2000)]
       (sample_logger\<lparr>al_controlPlaneUrl := []\<rparr>)
       (sample_disk\<lparr>buffer_file := Some (''{read}'' @ [CHR 0x0A])\<rparr>)
     = ([Idle],
        sample_logger\<lparr>al_controlPlaneUrl := [],
                        al_buffer := [auditEvent sample_logger sample_params 2000]\<rparr>,
        sample_disk\<lparr>buffer_file := Some (''{read}'' @ [CHR 0x0A])\<rparr>)
   \<and> flush_begin sample_stringify
       (sample_logger\<lparr>al_controlPlaneUrl := [],
                       al_buffer := [auditEvent sample_logger sample_params 2000]\<rparr>)
       (sample_disk\<lparr>buffer_file := Some (''{read}'' @ [CHR 0x0A])\<rparr>)
     = (PersistedLocally, sample_logger\<lparr>al_controlPlaneUrl := []\<rparr>,
        sample_disk\<lparr>buffer_file := Some (''{exec}'' @ [CHR 0x0A])\<rparr>)
   \<and> sample_event ''read'' \<noteq> auditEvent sample_logger sample_params 2000"
proof -
  have f1: "flush_begin sample_stringify
     (sample_logger\<lparr>al_controlPlaneUrl := [], al_buffer := [sample_event ''read'']\<rparr>) sample_disk
     = (PersistedLocally, sample_logger\<lparr>al_controlPlaneUrl := []\<rparr>,
        sample_disk\<lparr>buffer_file := Some (''{read}'' @ [CHR 0x0A])\<rparr>)"
    by (simp add: flush_begin_def persistBuffer_def Let_def sample_logger_def sample_disk_def
          sample_stringify_def sample_event_def)
  have e: "enqueue_all sample_stringify [(sample_params, 2000)]
       (sample_logger\<lparr>al_controlPlaneUrl := []\<rparr>)
       (sample_disk\<lparr>buffer_file := Some (''{read}'' @ [CHR 0x0A])\<rparr>)
     = ([Idle],
        sample_logger\<lparr>al_controlPlaneUrl := [],
                        al_buffer := [auditEvent sample_logger sample_params 2000]\<rparr>,
        sample_disk\<lparr>buffer_file := Some (''{read}'' @ [CHR 0x0A])\<rparr>)"
    by (simp add: enqueue_def auditEvent_def Let_def sample_logger_def)
  have f3: "flush_begin sample_stringify
       (sample_logger\<lparr>al_controlPlaneUrl := [],
                       al_buffer := [auditEvent sample_logger sample_params 2000]\<rparr>)
       (sample_disk\<lparr>buffer_file := Some (''{read}'' @ [CHR 0x0A])\<rparr>)
     = (PersistedLocally, sample_logger\<lparr>al_controlPlaneUrl := []\<rparr>,
        sample_disk\<lparr>buffer_file := Some (''{exec}'' @ [CHR 0x0A])\<rparr>)"
    by (simp add: flush_begin_def persistBuffer_def Let_def sample_logger_def sample_disk_def
          sample_stringify_def auditEvent_def sample_params_def)
  have pre: "al_controlPlaneUrl
               (sample_logger\<lparr>al_controlPlaneUrl := [], al_buffer := [sample_event ''read'']\<rparr>) = []
             \<and> al_buffer
               (sample_logger\<lparr>al_controlPlaneUrl := [], al_buffer := [sample_event ''read'']\<rparr>) \<noteq> []
             \<and> writable sample_disk"
    by (simp add: sample_disk_def)
  have ne: "al_buffer (sample_logger\<lparr>al_controlPlaneUrl := [],
                       al_buffer := [auditEvent sample_logger sample_params 2000]\<rparr>) \<noteq> []"
    by simp
  have d: "sample_event ''read'' \<noteq> auditEvent sample_logger sample_params 2000"
    by (simp add: sample_event_def auditEvent_def sample_params_def)
  show ?thesis
    using local_flush_overwrites_snapshot
      [of "sample_logger\<lparr>al_controlPlaneUrl := [], al_buffer := [sample_event ''read'']\<rparr>"
          sample_stringify sample_disk PersistedLocally
          "sample_logger\<lparr>al_controlPlaneUrl := []\<rparr>"
          "sample_disk\<lparr>buffer_file := Some (''{read}'' @ [CHR 0x0A])\<rparr>"
          "[(sample_params, 2000)]" "[Idle]"
          "sample_logger\<lparr>al_controlPlaneUrl := [],
                          al_buffer := [auditEvent sample_logger sample_params 2000]\<rparr>"
          "sample_disk\<lparr>buffer_file := Some (''{read}'' @ [CHR 0x0A])\<rparr>"
          PersistedLocally "sample_logger\<lparr>al_controlPlaneUrl := []\<rparr>"
          "sample_disk\<lparr>buffer_file := Some (''{exec}'' @ [CHR 0x0A])\<rparr>"]
      f1 e f3 pre ne d
    by simp
qed

end
